theory Spec2Isabelle
  imports Main
begin

section \<open>The world outside the supervisor\<close>

text \<open>
  The package talks to three things it does not control: the process environment
  (\<^verbatim>\<open>os.Getenv\<close>, \<^verbatim>\<open>os.Setenv\<close>, \<^verbatim>\<open>os.Unsetenv\<close>), the
  \<^verbatim>\<open>gcloud\<close> binary (\<^verbatim>\<open>exec.Cmd.Start\<close>, \<^verbatim>\<open>exec.Cmd.Run\<close>) and the
  HTTP endpoint of the emulator (\<^verbatim>\<open>http.Client.Do\<close>). Each call is recorded, in order,
  in a list of events; what the outside answers is read from an oracle that is indexed
  by the number of events recorded so far, so that the same request may be answered
  differently at different moments (an emulator that is still starting up).
\<close>

datatype http_method = GET | POST

datatype http_reply =
    RequestError     \<comment> \<open>\<^verbatim>\<open>http.NewRequestWithContext\<close> returned an error\<close>
  | TransportError   \<comment> \<open>\<^verbatim>\<open>c.Do(req)\<close> returned an error (also the per-request timeout)\<close>
  | Status nat       \<comment> \<open>a response with this status code\<close>

datatype error =
    NewRequestFailed
  | DoFailed
  | StatusCodeError nat   \<comment> \<open>\<^verbatim>\<open>fmt.Errorf("status code error: %d", ...)\<close>\<close>
  | ExecError             \<comment> \<open>the error of \<^verbatim>\<open>cmd.Start()\<close> or \<^verbatim>\<open>cmd.Run()\<close>\<close>
  | DeadlineExceeded      \<comment> \<open>\<^verbatim>\<open>ctx.Err()\<close> once \<^verbatim>\<open>ctx.Done()\<close> is closed\<close>
  | ErrTooLong            \<comment> \<open>\<^verbatim>\<open>scanner.Err()\<close>: a line over the scanner's token limit\<close>

datatype event =
    Setenv string string
  | Unsetenv string
  | CmdStart "string list" bool            \<comment> \<open>argv, and whether the process was spawned\<close>
  | CmdRun "string list" "string option"   \<comment> \<open>argv, and the captured stdout on success\<close>
  | HttpReq http_method string http_reply  \<comment> \<open>method, URL, and the answer\<close>

datatype select_case = TickC | CtxDone

record world =
  environ :: "string \<rightharpoonup> string"
  events :: "event list"
  net_reply :: "nat \<Rightarrow> http_method \<Rightarrow> string \<Rightarrow> http_reply"
  exec_start :: "nat \<Rightarrow> string list \<Rightarrow> bool"
  exec_run :: "nat \<Rightarrow> string list \<Rightarrow> string option"
  select_pick :: "nat \<Rightarrow> select_case"

text \<open>\<^verbatim>\<open>os.Getenv\<close> returns the empty string for a variable that is not set.\<close>

definition getenv :: "world \<Rightarrow> string \<Rightarrow> string" where
  "getenv w k = (case environ w k of None \<Rightarrow> [] | Some v \<Rightarrow> v)"

text \<open>
  \<^verbatim>\<open>os.Setenv\<close> refuses an empty key, a key holding \<^verbatim>\<open>=\<close> or a NUL byte, and a
  value holding a NUL byte; the package drops the error it returns.
\<close>

definition setenv_ok :: "string \<Rightarrow> string \<Rightarrow> bool" where
  "setenv_ok k v =
     (if k = [] then False
      else if CHR ''='' \<in> set k then False
      else if CHR 0x00 \<in> set k then False
      else if CHR 0x00 \<in> set v then False
      else True)"

definition setenv :: "string \<Rightarrow> string \<Rightarrow> world \<Rightarrow> world" where
  "setenv k v w =
     w\<lparr>environ := (if setenv_ok k v then (environ w)(k \<mapsto> v) else environ w),
       events := events w @ [Setenv k v]\<rparr>"

definition unsetenv :: "string \<Rightarrow> world \<Rightarrow> world" where
  "unsetenv k w = w\<lparr>environ := (environ w)(k := None), events := events w @ [Unsetenv k]\<rparr>"

section \<open>The handle and the package constants\<close>

record emulator =
  Host :: string
  ProjectID :: string
  stopOnClose :: bool

definition resetEndpoint :: string where "resetEndpoint = ''/reset''"
definition shutdownEndpoint :: string where "shutdownEndpoint = ''/shutdown''"
definition healthcheckEndpoint :: string where "healthcheckEndpoint = ''''"
definition defaultProject :: string where "defaultProject = ''test''"
definition defaultHost :: string where "defaultHost = ''localhost:8088''"

text \<open>\<^verbatim>\<open>&Emulator{}\<close>: every field at its zero value.\<close>

definition zero_emulator :: emulator where
  "zero_emulator = \<lparr>Host = [], ProjectID = [], stopOnClose = False\<rparr>"

section \<open>Functions shared by both versions of the file\<close>

definition command :: "string list \<Rightarrow> string list" where
  "command extraArgs = ''gcloud'' # ([''beta'', ''emulators'', ''datastore''] @ extraArgs)"

definition cmd_Start :: "world \<Rightarrow> string list \<Rightarrow> error option \<times> world" where
  "cmd_Start w argv =
     (let ok = exec_start w (length (events w)) argv;
          w' = w\<lparr>events := events w @ [CmdStart argv ok]\<rparr>
      in (if ok then None else Some ExecError, w'))"

definition cmd_Run :: "world \<Rightarrow> string list \<Rightarrow> string option \<times> world" where
  "cmd_Run w argv =
     (let out = exec_run w (length (events w)) argv
      in (out, w\<lparr>events := events w @ [CmdRun argv out]\<rparr>))"

definition request :: "world \<Rightarrow> emulator \<Rightarrow> string \<Rightarrow> http_method \<Rightarrow> error option \<times> world" where
  "request w e path method =
     (let url = Host e @ path;
          r = net_reply w (length (events w)) method url;
          w' = w\<lparr>events := events w @ [HttpReq method url r]\<rparr>
      in (case r of
            RequestError \<Rightarrow> (Some NewRequestFailed, w')
          | TransportError \<Rightarrow> (Some DoFailed, w')
          | Status c \<Rightarrow> (if c = 200 then (None, w') else (Some (StatusCodeError c), w'))))"

definition isHealthy :: "world \<Rightarrow> emulator \<Rightarrow> bool \<times> world" where
  "isHealthy w e =
     (case request w e healthcheckEndpoint GET of
        (Some err, w') \<Rightarrow> (False, w')
      | (None, w') \<Rightarrow> (True, w'))"

definition Reset :: "world \<Rightarrow> emulator \<Rightarrow> error option \<times> world" where
  "Reset w e = request w e resetEndpoint POST"

definition Close :: "world \<Rightarrow> emulator \<Rightarrow> error option \<times> world" where
  "Close w e =
     (if \<not> stopOnClose e then (None, w)
      else
        (let w1 = unsetenv ''DATASTORE_EMULATOR_HOST'' w;
             w2 = unsetenv ''DATASTORE_PROJECT_ID'' w1
         in case isHealthy w2 e of
              (healthy, w3) \<Rightarrow>
                if healthy then request w3 e shutdownEndpoint POST else (None, w3)))"

text \<open>
  \<^verbatim>\<open>confirmStartup\<close> loops over a \<^verbatim>\<open>select\<close> between the ticker and the
  deadline of the context. Which case the Go runtime takes at each turn is the world's
  choice (\<open>select_pick\<close>); a run in which the deadline case is never taken does not
  return, and has the value \<open>None\<close>. There is no clock here: the package's
  \<^verbatim>\<open>timeout\<close> (5 or 30 seconds) and \<^verbatim>\<open>pollingRate\<close> (200 milliseconds) decide
  when a channel becomes ready and when a request is given up, and both are the
  world's answers.
\<close>

partial_function (option) confirmStartup :: "world \<Rightarrow> emulator \<Rightarrow> (error option \<times> world) option" where
  "confirmStartup w e =
     (case select_pick w (length (events w)) of
        TickC \<Rightarrow>
          (case isHealthy w e of
             (healthy, w') \<Rightarrow> if healthy then Some (None, w') else confirmStartup w' e)
      | CtxDone \<Rightarrow> Some (Some DeadlineExceeded, w))"

section \<open>\<^verbatim>\<open>emulator.go\<close>: the version that asks \<^verbatim>\<open>env-init\<close>\<close>

text \<open>
  Discovery reads the two variables and then calls \<^verbatim>\<open>e.isHealthy()\<close>, which
  requests \<^verbatim>\<open>e.Host + healthcheckEndpoint\<close>: the handle's own \<open>Host\<close>, which
  is assigned only after the probe.
\<close>

definition instanceIsPresent :: "world \<Rightarrow> emulator \<Rightarrow> bool \<times> world \<times> emulator" where
  "instanceIsPresent w e =
     (let host = getenv w ''DATASTORE_HOST'' in
      if host = [] then (False, w, e)
      else
        (let projectID = getenv w ''DATASTORE_PROJECT_ID'' in
         if projectID = [] then (False, w, e)
         else
           (case isHealthy w e of
              (healthy, w') \<Rightarrow>
                if \<not> healthy then (False, w', e)
                else (True, w', e\<lparr>Host := host, ProjectID := projectID\<rparr>))))"

text \<open>
  \<^verbatim>\<open>strings.Split(s, sep)\<close> for a separator of one byte: the pieces between the
  separators, always at least one piece.
\<close>

fun split_on :: "char \<Rightarrow> string \<Rightarrow> string list" where
  "split_on c [] = [[]]"
| "split_on c (x # xs) =
     (if x = c then [] # split_on c xs
      else (case split_on c xs of
              [] \<Rightarrow> [[x]]
            | y # ys \<Rightarrow> (x # y) # ys))"

text \<open>
  \<^verbatim>\<open>bufio.Scanner\<close> with its default \<^verbatim>\<open>ScanLines\<close>: the input is cut at every
  newline, a last piece that is empty is not a line, and one trailing carriage return
  is dropped from each line. A line of \<^verbatim>\<open>bufio.MaxScanTokenSize\<close> bytes or more
  stops the scanner with \<^verbatim>\<open>ErrTooLong\<close>; the lines before it have been delivered.
\<close>

definition MaxScanTokenSize :: nat where "MaxScanTokenSize = 65536"

definition dropCR :: "string \<Rightarrow> string" where
  "dropCR l = (if l = [] then l else if last l = CHR 0x0D then butlast l else l)"

definition scan_pieces :: "string \<Rightarrow> string list" where
  "scan_pieces out =
     (let ps = split_on (CHR 0x0A) out in if last ps = [] then butlast ps else ps)"

definition scanner_lines :: "string \<Rightarrow> string list" where
  "scanner_lines out =
     map dropCR (takeWhile (\<lambda>l. length l < MaxScanTokenSize) (scan_pieces out))"

definition scanner_Err :: "string \<Rightarrow> error option" where
  "scanner_Err out =
     (if list_all (\<lambda>l. length l < MaxScanTokenSize) (scan_pieces out) then None
      else Some ErrTooLong)"

text \<open>
  The body of the scanning loop:
  \<^verbatim>\<open>e := strings.Split(strings.Split(line, " ")[1], "="); env[e[0]] = e[1]\<close>.
  Both index expressions are unchecked; where the slice is too short Go panics with
  an index out of range, which is the value \<open>None\<close> here.
\<close>

definition parse_line :: "string \<Rightarrow> (string \<times> string) option" where
  "parse_line line =
     (case split_on (CHR '' '') line of
        t0 # t1 # ts \<Rightarrow>
          (case split_on (CHR ''='') t1 of
             k # v # vs \<Rightarrow> Some (k, v)
           | _ \<Rightarrow> None)
      | _ \<Rightarrow> None)"

fun scan_loop :: "string list \<Rightarrow> (string \<rightharpoonup> string) \<Rightarrow> (string \<rightharpoonup> string) option" where
  "scan_loop [] env = Some env"
| "scan_loop (line # rest) env =
     (case parse_line line of
        None \<Rightarrow> None
      | Some (k, v) \<Rightarrow> scan_loop rest (env(k \<mapsto> v)))"

text \<open>Reading a Go map at a key it does not hold gives the empty string.\<close>

definition map_index :: "(string \<rightharpoonup> string) \<Rightarrow> string \<Rightarrow> string" where
  "map_index env k = (case env k of None \<Rightarrow> [] | Some v \<Rightarrow> v)"

text \<open>A call either returns or panics; a panic unwinds through every caller.\<close>

datatype 'a outcome = Returns 'a | Panics

definition initEnv :: "world \<Rightarrow> emulator \<Rightarrow> error option outcome \<times> world \<times> emulator" where
  "initEnv w e =
     (case cmd_Run w (command [''env-init'']) of
        (None, w1) \<Rightarrow> (Returns (Some ExecError), w1, e)
      | (Some out, w1) \<Rightarrow>
          (case scan_loop (scanner_lines out) Map.empty of
             None \<Rightarrow> (Panics, w1, e)
           | Some env \<Rightarrow>
               (case scanner_Err out of
                  Some err \<Rightarrow> (Returns (Some err), w1, e)
                | None \<Rightarrow>
                    (let e' = e\<lparr>Host := map_index env ''DATASTORE_HOST'',
                                 ProjectID := map_index env ''DATASTORE_PROJECT_ID''\<rparr>;
                         w2 = setenv ''DATASTORE_EMULATOR_HOST''
                                (map_index env ''DATASTORE_EMULATOR_HOST'') w1;
                         w3 = setenv ''DATASTORE_PROJECT_ID''
                                (map_index env ''DATASTORE_PROJECT_ID'') w2
                     in (Returns None, w3, e')))))"

definition Start :: "world \<Rightarrow> emulator \<Rightarrow> (error option outcome \<times> world \<times> emulator) option" where
  "Start w e =
     (case instanceIsPresent w e of
        (present, w1, e1) \<Rightarrow>
          if present then Some (Returns None, w1, e1)
          else
            (let e2 = e1\<lparr>stopOnClose := True\<rparr> in
             case cmd_Start w1 (command [''start'', ''--consistency=1.0'', ''--no-store-on-disk'']) of
               (Some err, w2) \<Rightarrow> Some (Returns (Some err), w2, e2)
             | (None, w2) \<Rightarrow>
                 (case initEnv w2 e2 of
                    (Panics, w3, e3) \<Rightarrow> Some (Panics, w3, e3)
                  | (Returns (Some err), w3, e3) \<Rightarrow>
                      Some (Returns (Some err), snd (Close w3 e3), e3)
                  | (Returns None, w3, e3) \<Rightarrow>
                      (case confirmStartup w3 e3 of
                         None \<Rightarrow> None
                       | Some (Some err, w4) \<Rightarrow>
                           Some (Returns (Some err), snd (Close w4 e3), e3)
                       | Some (None, w4) \<Rightarrow> Some (Returns None, w4, e3)))))"

definition New :: "world \<Rightarrow> ((error + emulator) outcome \<times> world) option" where
  "New w =
     (case Start w zero_emulator of
        None \<Rightarrow> None
      | Some (Panics, w', e) \<Rightarrow> Some (Panics, w')
      | Some (Returns (Some err), w', e) \<Rightarrow> Some (Returns (Inl err), w')
      | Some (Returns None, w', e) \<Rightarrow> Some (Returns (Inr e), w'))"

section \<open>The second version of the file: a fixed address and project\<close>

text \<open>
  Here discovery passes the discovered address to \<^verbatim>\<open>e.request(host, http.MethodGet)\<close>
  as the path, so the URL requested is \<^verbatim>\<open>e.Host + host\<close>. The launcher is given
  \<open>defaultHost\<close> and \<open>defaultProject\<close>, and the variables are written after
  \<^verbatim>\<open>confirmStartup\<close>. Nothing in this version can panic.
\<close>

definition instanceIsPresent_fixed :: "world \<Rightarrow> emulator \<Rightarrow> bool \<times> world \<times> emulator" where
  "instanceIsPresent_fixed w e =
     (let host = getenv w ''DATASTORE_HOST'' in
      if host = [] then (False, w, e)
      else
        (let projectID = getenv w ''DATASTORE_PROJECT_ID'' in
         if projectID = [] then (False, w, e)
         else
           (case request w e host GET of
              (Some err, w') \<Rightarrow> (False, w', e)
            | (None, w') \<Rightarrow> (True, w', e\<lparr>Host := host, ProjectID := projectID\<rparr>))))"

definition Start_fixed :: "world \<Rightarrow> emulator \<Rightarrow> (error option \<times> world \<times> emulator) option" where
  "Start_fixed w e =
     (case instanceIsPresent_fixed w e of
        (present, w1, e1) \<Rightarrow>
          if present then Some (None, w1, e1)
          else
            (let e2 = e1\<lparr>stopOnClose := True\<rparr> in
             case cmd_Start w1
                    (command [''start'', ''--consistency=1.0'', ''--no-store-on-disk'',
                              ''--host-port='' @ defaultHost, ''--project='' @ defaultProject]) of
               (Some err, w2) \<Rightarrow> Some (Some err, w2, e2)
             | (None, w2) \<Rightarrow>
                 (let e3 = e2\<lparr>Host := ''http://'' @ defaultHost, ProjectID := defaultProject\<rparr> in
                  case confirmStartup w2 e3 of
                    None \<Rightarrow> None
                  | Some (Some err, w3) \<Rightarrow> Some (Some err, snd (Close w3 e3), e3)
                  | Some (None, w3) \<Rightarrow>
                      Some (None,
                            setenv ''DATASTORE_PROJECT_ID'' defaultProject
                              (setenv ''DATASTORE_EMULATOR_HOST'' defaultHost w3),
                            e3))))"

definition New_fixed :: "world \<Rightarrow> ((error + emulator) \<times> world) option" where
  "New_fixed w =
     (case Start_fixed w zero_emulator of
        None \<Rightarrow> None
      | Some (Some err, w', e) \<Rightarrow> Some (Inl err, w')
      | Some (None, w', e) \<Rightarrow> Some (Inr e, w'))"

section \<open>Sample worlds\<close>

text \<open>
  Concrete worlds for the runs evaluated below. \<open>env_init_output\<close> is what
  \<^verbatim>\<open>gcloud beta emulators datastore env-init\<close> prints, one \<^verbatim>\<open>export\<close> a line.
  \<open>up_at addr since\<close> is an emulator listening at \<open>addr\<close> that answers from the
  moment \<open>since\<close> on; \<open>never_up\<close> is one that never answers; \<open>ticks_until d\<close>
  lets the ticker win every \<^verbatim>\<open>select\<close> before the moment \<open>d\<close> and the deadline win
  from then on.
\<close>

definition env_init_output :: string where
  "env_init_output =
     ''export DATASTORE_DATASET=test'' @ [CHR 0x0A] @
     ''export DATASTORE_EMULATOR_HOST=localhost:8081'' @ [CHR 0x0A] @
     ''export DATASTORE_EMULATOR_HOST_PATH=localhost:8081/datastore'' @ [CHR 0x0A] @
     ''export DATASTORE_HOST=http://localhost:8081'' @ [CHR 0x0A] @
     ''export DATASTORE_PROJECT_ID=test'' @ [CHR 0x0A]"

definition up_at :: "string \<Rightarrow> nat \<Rightarrow> nat \<Rightarrow> http_method \<Rightarrow> string \<Rightarrow> http_reply" where
  "up_at addr since n m u =
     (if n < since then TransportError
      else if take (length addr) u = addr then Status 200
      else TransportError)"

definition never_up :: "nat \<Rightarrow> http_method \<Rightarrow> string \<Rightarrow> http_reply" where
  "never_up n m u = TransportError"

definition ticks_until :: "nat \<Rightarrow> nat \<Rightarrow> select_case" where
  "ticks_until d n = (if n < d then TickC else CtxDone)"

definition mk_world ::
  "(string \<rightharpoonup> string) \<Rightarrow> (nat \<Rightarrow> http_method \<Rightarrow> string \<Rightarrow> http_reply) \<Rightarrow> bool \<Rightarrow>
     string option \<Rightarrow> (nat \<Rightarrow> select_case) \<Rightarrow> world" where
  "mk_world en reply can_start out pick =
     \<lparr>environ = en, events = [], net_reply = reply,
      exec_start = (\<lambda>n argv. can_start), exec_run = (\<lambda>n argv. out),
      select_pick = pick\<rparr>"

text \<open>An emulator somebody else started, advertised in the environment.\<close>

definition adopt_world :: world where
  "adopt_world =
     mk_world [''DATASTORE_HOST'' \<mapsto> ''http://localhost:8081'', ''DATASTORE_PROJECT_ID'' \<mapsto> ''test'']
       (up_at ''http://localhost:8081'' 0) True (Some env_init_output) (ticks_until 30)"

text \<open>No instance advertised and no \<^verbatim>\<open>gcloud\<close> binary to run.\<close>

definition no_gcloud_world :: world where
  "no_gcloud_world = mk_world Map.empty never_up False None (ticks_until 30)"

text \<open>The launcher starts, but the emulator never answers; the deadline wins at \<open>d\<close>.\<close>

definition dead_world :: "nat \<Rightarrow> world" where
  "dead_world d = mk_world Map.empty never_up True (Some env_init_output) (ticks_until d)"

text \<open>The launcher starts and the emulator at \<open>addr\<close> answers from the moment 6 on.\<close>

definition launch_world :: "string \<Rightarrow> world" where
  "launch_world addr = mk_world Map.empty (up_at addr 6) True (Some env_init_output) (ticks_until 30)"

text \<open>As \<open>launch_world\<close>, but \<^verbatim>\<open>env-init\<close> ends its output with a blank line.\<close>

definition blank_line_world :: world where
  "blank_line_world =
     mk_world Map.empty (up_at ''http://localhost:8081'' 6) True
       (Some (env_init_output @ [CHR 0x0A])) (ticks_until 30)"

text \<open>An instance this process launched earlier, still running, and its handle.\<close>

definition running_world :: world where
  "running_world =
     mk_world [''DATASTORE_EMULATOR_HOST'' \<mapsto> ''localhost:8081'', ''DATASTORE_PROJECT_ID'' \<mapsto> ''test'']
       (up_at ''http://localhost:8081'' 0) True (Some env_init_output) (ticks_until 30)"

definition owned_emulator :: emulator where
  "owned_emulator = \<lparr>Host = ''http://localhost:8081'', ProjectID = ''test'', stopOnClose = True\<rparr>"

text \<open>
  The run of \<^verbatim>\<open>emulator.go\<close> in \<open>dead_world 28\<close>, world by world: after the
  spawn, after \<^verbatim>\<open>initEnv\<close>, after the 24 failed health requests of the polling
  loop, and after \<^verbatim>\<open>Close\<close>. The run of the second version in \<open>dead_world 150\<close>
  has 149 failed health requests. \<open>is_POST\<close> picks the administrative requests out
  of a list of events.
\<close>

definition is_POST :: "event \<Rightarrow> bool" where
  "is_POST ev = (case ev of HttpReq m u r \<Rightarrow> m = POST | _ \<Rightarrow> False)"

definition spawned_world :: world where
  "spawned_world =
     (dead_world 28)\<lparr>events :=
        [CmdStart [''gcloud'', ''beta'', ''emulators'', ''datastore'', ''start'',
                   ''--consistency=1.0'', ''--no-store-on-disk''] True]\<rparr>"

definition inited_world :: world where
  "inited_world =
     spawned_world
       \<lparr>environ := [''DATASTORE_EMULATOR_HOST'' \<mapsto> ''localhost:8081'',
                    ''DATASTORE_PROJECT_ID'' \<mapsto> ''test''],
        events := events spawned_world @
          [CmdRun [''gcloud'', ''beta'', ''emulators'', ''datastore'', ''env-init'']
             (Some env_init_output),
           Setenv ''DATASTORE_EMULATOR_HOST'' ''localhost:8081'',
           Setenv ''DATASTORE_PROJECT_ID'' ''test'']\<rparr>"

definition polled_world :: world where
  "polled_world =
     inited_world\<lparr>events := events inited_world @
        replicate 24 (HttpReq GET ''http://localhost:8081'' TransportError)\<rparr>"

definition closed_world :: world where
  "closed_world =
     polled_world
       \<lparr>environ := Map.empty,
        events := events polled_world @
          [Unsetenv ''DATASTORE_EMULATOR_HOST'', Unsetenv ''DATASTORE_PROJECT_ID'',
           HttpReq GET ''http://localhost:8081'' TransportError]\<rparr>"

definition spawned_world_fixed :: world where
  "spawned_world_fixed =
     (dead_world 150)\<lparr>events :=
        [CmdStart [''gcloud'', ''beta'', ''emulators'', ''datastore'', ''start'',
                   ''--consistency=1.0'', ''--no-store-on-disk'',
                   ''--host-port=localhost:8088'', ''--project=test''] True]\<rparr>"

definition polled_world_fixed :: world where
  "polled_world_fixed =
     spawned_world_fixed\<lparr>events := events spawned_world_fixed @
        replicate 149 (HttpReq GET ''http://localhost:8088'' TransportError)\<rparr>"

definition closed_world_fixed :: world where
  "closed_world_fixed =
     polled_world_fixed
       \<lparr>events := events polled_world_fixed @
          [Unsetenv ''DATASTORE_EMULATOR_HOST'', Unsetenv ''DATASTORE_PROJECT_ID'',
           HttpReq GET ''http://localhost:8088'' TransportError]\<rparr>"

definition owned_emulator_fixed :: emulator where
  "owned_emulator_fixed = \<lparr>Host = ''http://localhost:8088'', ProjectID = ''test'', stopOnClose = True\<rparr>"

text \<open>
  A retry: no \<^verbatim>\<open>gcloud\<close> binary and nothing advertised, while an emulator that
  somebody else started answers at port 8081. \<open>advertise\<close> is the caller exporting
  the two discovery variables between two calls of Start. \<open>retry_failed_world\<close> is
  the world after the first call, \<open>retry_adopted_world\<close> the one after the second;
  \<open>relaunch_adopted_world\<close> is \<open>adopt_world\<close> after a Start on a handle that had
  launched an instance before.
\<close>

definition retry_world :: world where
  "retry_world = mk_world Map.empty (up_at ''http://localhost:8081'' 0) False None (ticks_until 30)"

definition advertise :: "world \<Rightarrow> world" where
  "advertise w =
     w\<lparr>environ := (environ w)(''DATASTORE_HOST'' \<mapsto> ''http://localhost:8081'',
                                ''DATASTORE_PROJECT_ID'' \<mapsto> ''test'')\<rparr>"

definition retry_failed_world :: world where
  "retry_failed_world =
     retry_world\<lparr>events :=
       [CmdStart [''gcloud'', ''beta'', ''emulators'', ''datastore'', ''start'',
                  ''--consistency=1.0'', ''--no-store-on-disk'',
                  ''--host-port=localhost:8088'', ''--project=test''] False]\<rparr>"

definition retry_adopted_world :: world where
  "retry_adopted_world =
     (advertise retry_failed_world)\<lparr>events := events retry_failed_world @
       [HttpReq GET ''http://localhost:8081'' (Status 200)]\<rparr>"

definition relaunch_adopted_world :: world where
  "relaunch_adopted_world =
     adopt_world\<lparr>events := [HttpReq GET ''http://localhost:8081'' (Status 200)]\<rparr>"

section \<open>Requests, health checks and the polling loop\<close>

lemma request_world:
  "snd (request w e path m) =
     w\<lparr>events := events w @ [HttpReq m (Host e @ path) (net_reply w (length (events w)) m (Host e @ path))]\<rparr>"
  by (simp add: request_def Let_def split: http_reply.split)

lemma request_ok:
  "(fst (request w e path m) = None) = (net_reply w (length (events w)) m (Host e @ path) = Status 200)"
  by (simp add: request_def Let_def split: http_reply.split)

lemma isHealthy_eq:
  "isHealthy w e =
     (net_reply w (length (events w)) GET (Host e) = Status 200,
      w\<lparr>events := events w @ [HttpReq GET (Host e) (net_reply w (length (events w)) GET (Host e))]\<rparr>)"
  using request_ok [of w e healthcheckEndpoint GET] request_world [of w e healthcheckEndpoint GET]
  by (cases "request w e healthcheckEndpoint GET")
     (auto simp: isHealthy_def healthcheckEndpoint_def split: option.split)

text \<open>What \<^verbatim>\<open>Close\<close> does on an owned handle, event by event.\<close>

lemma Close_owned:
  assumes "stopOnClose e"
  shows "environ (snd (Close w e)) =
           (environ w)(''DATASTORE_EMULATOR_HOST'' := None, ''DATASTORE_PROJECT_ID'' := None)"
    and "events (snd (Close w e)) =
           events w @ [Unsetenv ''DATASTORE_EMULATOR_HOST'', Unsetenv ''DATASTORE_PROJECT_ID'',
                       HttpReq GET (Host e) (net_reply w (length (events w) + 2) GET (Host e))] @
           (if net_reply w (length (events w) + 2) GET (Host e) = Status 200
            then [HttpReq POST (Host e @ ''/shutdown'')
                    (net_reply w (length (events w) + 3) POST (Host e @ ''/shutdown''))]
            else [])"
    and "(fst (Close w e) = None) =
           (if net_reply w (length (events w) + 2) GET (Host e) = Status 200
            then net_reply w (length (events w) + 3) POST (Host e @ ''/shutdown'') = Status 200
            else True)"
  using assms
  by (auto simp: Close_def Let_def split_beta isHealthy_eq request_world request_ok unsetenv_def
        shutdownEndpoint_def numeral_2_eq_2 numeral_3_eq_3)

lemma confirmStartup_deadline:
  "select_pick w (length (events w)) = CtxDone \<Longrightarrow>
     confirmStartup w e = Some (Some DeadlineExceeded, w)"
  by (subst confirmStartup.simps) simp

lemma confirmStartup_tick:
  "select_pick w (length (events w)) = TickC \<Longrightarrow>
     confirmStartup w e =
       (if net_reply w (length (events w)) GET (Host e) = Status 200
        then Some (None, w\<lparr>events := events w @ [HttpReq GET (Host e) (Status 200)]\<rparr>)
        else confirmStartup
               (w\<lparr>events := events w @
                   [HttpReq GET (Host e) (net_reply w (length (events w)) GET (Host e))]\<rparr>) e)"
  by (subst confirmStartup.simps) (simp add: isHealthy_eq)

text \<open>
  A run of the loop in which the ticker wins \<open>n\<close> times, every health request of
  those turns fails, and then the deadline wins: the loop returns the timeout error
  after exactly \<open>n\<close> requests.
\<close>

lemma confirmStartup_all_fail:
  assumes "\<And>k. k < n \<Longrightarrow> select_pick w (length (events w) + k) = TickC"
    and "select_pick w (length (events w) + n) = CtxDone"
    and "\<And>k. k < n \<Longrightarrow> net_reply w (length (events w) + k) GET (Host e) = TransportError"
  shows "confirmStartup w e =
           Some (Some DeadlineExceeded,
                 w\<lparr>events := events w @ replicate n (HttpReq GET (Host e) TransportError)\<rparr>)"
  using assms
proof (induction n arbitrary: w)
  case 0
  then show ?case by (simp add: confirmStartup_deadline)
next
  case (Suc n)
  let ?w' = "w\<lparr>events := events w @ [HttpReq GET (Host e) TransportError]\<rparr>"
  have pick: "select_pick w (length (events w)) = TickC"
    using Suc.prems(1) [of 0] by simp
  have reply: "net_reply w (length (events w)) GET (Host e) = TransportError"
    using Suc.prems(3) [of 0] by simp
  have step: "confirmStartup w e = confirmStartup ?w' e"
    using pick reply by (simp add: confirmStartup_tick)
  have "confirmStartup ?w' e =
          Some (Some DeadlineExceeded,
                ?w'\<lparr>events := events ?w' @ replicate n (HttpReq GET (Host e) TransportError)\<rparr>)"
  proof (rule Suc.IH)
    fix k assume "k < n"
    then show "select_pick ?w' (length (events ?w') + k) = TickC"
      using Suc.prems(1) [of "Suc k"] by simp
    show "net_reply ?w' (length (events ?w') + k) GET (Host e) = TransportError"
      using Suc.prems(3) [of "Suc k"] \<open>k < n\<close> by simp
  next
    show "select_pick ?w' (length (events ?w') + n) = CtxDone"
      using Suc.prems(2) by simp
  qed
  with step show ?case by simp
qed

text \<open>
  The same run, but the request of the turn after the \<open>n\<close> failures is answered
  with status 200 while the ticker still wins: the loop returns success.
\<close>

lemma confirmStartup_first_success:
  assumes "\<And>k. k \<le> n \<Longrightarrow> select_pick w (length (events w) + k) = TickC"
    and "\<And>k. k < n \<Longrightarrow> net_reply w (length (events w) + k) GET (Host e) = TransportError"
    and "net_reply w (length (events w) + n) GET (Host e) = Status 200"
  shows "confirmStartup w e =
           Some (None,
                 w\<lparr>events := events w @ replicate n (HttpReq GET (Host e) TransportError) @
                                [HttpReq GET (Host e) (Status 200)]\<rparr>)"
  using assms
proof (induction n arbitrary: w)
  case 0
  then show ?case using confirmStartup_tick [of w e] by simp
next
  case (Suc n)
  let ?w' = "w\<lparr>events := events w @ [HttpReq GET (Host e) TransportError]\<rparr>"
  have pick: "select_pick w (length (events w)) = TickC"
    using Suc.prems(1) [of 0] by simp
  have reply: "net_reply w (length (events w)) GET (Host e) = TransportError"
    using Suc.prems(2) [of 0] by simp
  have step: "confirmStartup w e = confirmStartup ?w' e"
    using pick reply by (simp add: confirmStartup_tick)
  have "confirmStartup ?w' e =
          Some (None,
                ?w'\<lparr>events := events ?w' @ replicate n (HttpReq GET (Host e) TransportError) @
                                [HttpReq GET (Host e) (Status 200)]\<rparr>)"
  proof (rule Suc.IH)
    fix k assume "k \<le> n"
    then show "select_pick ?w' (length (events ?w') + k) = TickC"
      using Suc.prems(1) [of "Suc k"] by simp
  next
    fix k assume "k < n"
    then show "net_reply ?w' (length (events ?w') + k) GET (Host e) = TransportError"
      using Suc.prems(2) [of "Suc k"] by simp
  next
    show "net_reply ?w' (length (events ?w') + n) GET (Host e) = Status 200"
      using Suc.prems(3) by simp
  qed
  with step show ?case by simp
qed

text \<open>
  Whenever the loop returns, it has only added health requests to the events, all of
  them to the handle's \<open>Host\<close>; it returns success exactly after a request answered
  with status 200, which is then the last event, and its only error is the timeout.
\<close>

lemma confirmStartup_returns_aux:
  assumes "confirmStartup w0 e0 = Some y0"
  shows "\<exists>rs. snd y0 = w0\<lparr>events := events w0 @ map (HttpReq GET (Host e0)) rs\<rparr> \<and>
           (fst y0 = None \<and> rs \<noteq> [] \<and> last rs = Status 200
            \<or> fst y0 = Some DeadlineExceeded \<and> Status 200 \<notin> set rs)"
proof (rule confirmStartup.raw_induct
    [where P = "\<lambda>w e y. \<exists>rs. snd y = w\<lparr>events := events w @ map (HttpReq GET (Host e)) rs\<rparr> \<and>
           (fst y = None \<and> rs \<noteq> [] \<and> last rs = Status 200
            \<or> fst y = Some DeadlineExceeded \<and> Status 200 \<notin> set rs)", OF _ assms])
  fix loop :: "world \<Rightarrow> emulator \<Rightarrow> (error option \<times> world) option"
  fix w e y
  assume IH: "\<And>w e y. loop w e = Some y \<Longrightarrow>
     \<exists>rs. snd y = w\<lparr>events := events w @ map (HttpReq GET (Host e)) rs\<rparr> \<and>
           (fst y = None \<and> rs \<noteq> [] \<and> last rs = Status 200
            \<or> fst y = Some DeadlineExceeded \<and> Status 200 \<notin> set rs)"
  assume step: "(case select_pick w (length (events w)) of
        TickC \<Rightarrow>
          (case isHealthy w e of
             (healthy, w') \<Rightarrow> if healthy then Some (None, w') else loop w' e)
      | CtxDone \<Rightarrow> Some (Some DeadlineExceeded, w)) = Some y"
  show "\<exists>rs. snd y = w\<lparr>events := events w @ map (HttpReq GET (Host e)) rs\<rparr> \<and>
           (fst y = None \<and> rs \<noteq> [] \<and> last rs = Status 200
            \<or> fst y = Some DeadlineExceeded \<and> Status 200 \<notin> set rs)"
  proof (cases "select_pick w (length (events w))")
    case CtxDone
    with step have "y = (Some DeadlineExceeded, w)" by simp
    then show ?thesis by (intro exI [of _ "[]"]) simp
  next
    case TickC
    let ?r = "net_reply w (length (events w)) GET (Host e)"
    let ?w1 = "w\<lparr>events := events w @ [HttpReq GET (Host e) ?r]\<rparr>"
    show ?thesis
    proof (cases "?r = Status 200")
      case True
      with TickC step have "y = (None, ?w1)" by (simp add: isHealthy_eq)
      with True show ?thesis by (intro exI [of _ "[?r]"]) simp
    next
      case False
      with TickC step have "loop ?w1 e = Some y" by (simp add: isHealthy_eq)
      from IH [OF this] obtain rs where
        "snd y = ?w1\<lparr>events := events ?w1 @ map (HttpReq GET (Host e)) rs\<rparr>"
        "fst y = None \<and> rs \<noteq> [] \<and> last rs = Status 200
           \<or> fst y = Some DeadlineExceeded \<and> Status 200 \<notin> set rs"
        by blast
      with False show ?thesis by (intro exI [of _ "?r # rs"]) auto
    qed
  qed
qed

lemma confirmStartup_returns:
  assumes "confirmStartup w e = Some (r, w')"
  shows "\<exists>rs. w' = w\<lparr>events := events w @ map (HttpReq GET (Host e)) rs\<rparr> \<and>
           (r = None \<and> rs \<noteq> [] \<and> last rs = Status 200
            \<or> r = Some DeadlineExceeded \<and> Status 200 \<notin> set rs)"
  using confirmStartup_returns_aux [OF assms] by simp

section \<open>The paths through Start\<close>

text \<open>
  Discovery that finds nothing leaves the handle alone and adds at most its failed probe.
  Every return of Start is one of six paths (four in the second version of the file);
  the case rules below name them, with the intermediate worlds.
\<close>

lemma instanceIsPresent_False:
  assumes "instanceIsPresent w e = (False, w1, e1)"
  shows "e1 = e" and "environ w1 = environ w"
    and "\<exists>evs. w1 = w\<lparr>events := events w @ evs\<rparr> \<and> list_all (\<lambda>ev. \<exists>r. ev = HttpReq GET (Host e) r) evs"
  using assms
  by (auto simp: instanceIsPresent_def isHealthy_eq Let_def split: if_splits
      intro: exI [of _ "[]"] exI [of _ "[HttpReq GET (Host e) r]" for r])

lemma instanceIsPresent_fixed_False:
  assumes "instanceIsPresent_fixed w e = (False, w1, e1)"
  shows "e1 = e" and "environ w1 = environ w"
    and "\<exists>evs. w1 = w\<lparr>events := events w @ evs\<rparr> \<and> list_all (\<lambda>ev. \<exists>u r. ev = HttpReq GET u r) evs"
proof -
  let ?h = "getenv w ''DATASTORE_HOST''"
  have rw: "snd (request w e ?h GET) = w\<lparr>events := events w @ [HttpReq GET (Host e @ ?h) (net_reply w (length (events w)) GET (Host e @ ?h))]\<rparr>"
    by (rule request_world)
  show "e1 = e" "environ w1 = environ w"
    using assms rw
    by (auto simp: instanceIsPresent_fixed_def Let_def split: if_splits prod.splits option.splits)
  show "\<exists>evs. w1 = w\<lparr>events := events w @ evs\<rparr> \<and> list_all (\<lambda>ev. \<exists>u r. ev = HttpReq GET u r) evs"
  proof (cases "w1 = w")
    case True
    then show ?thesis by (intro exI [of _ "[]"]) simp
  next
    case False
    with assms rw have "w1 = snd (request w e ?h GET)"
      by (auto simp: instanceIsPresent_fixed_def Let_def split: if_splits prod.splits option.splits)
    with rw show ?thesis
      by (intro exI [of _ "[HttpReq GET (Host e @ ?h) (net_reply w (length (events w)) GET (Host e @ ?h))]"]) simp
  qed
qed

lemma initEnv_frame:
  assumes "initEnv w e = (out, w', e')"
  shows "stopOnClose e' = stopOnClose e"
    and "k \<noteq> ''DATASTORE_EMULATOR_HOST'' \<Longrightarrow> k \<noteq> ''DATASTORE_PROJECT_ID'' \<Longrightarrow> environ w' k = environ w k"
  using assms
  by (auto simp: initEnv_def cmd_Run_def setenv_def Let_def split: option.splits prod.splits)


lemma Start_cases:
  assumes "Start w e = Some (out, w', e')"
  obtains
    (adopted) "instanceIsPresent w e = (True, w', e')" "out = Returns None"
  | (spawn_failed) w1 err where
      "instanceIsPresent w e = (False, w1, e)"
      "cmd_Start w1 (command [''start'', ''--consistency=1.0'', ''--no-store-on-disk'']) = (Some err, w')"
      "out = Returns (Some err)" "e' = e\<lparr>stopOnClose := True\<rparr>"
  | (init_panicked) w1 w2 where
      "instanceIsPresent w e = (False, w1, e)"
      "cmd_Start w1 (command [''start'', ''--consistency=1.0'', ''--no-store-on-disk'']) = (None, w2)"
      "initEnv w2 (e\<lparr>stopOnClose := True\<rparr>) = (Panics, w', e')" "out = Panics"
  | (init_failed) w1 w2 w3 err where
      "instanceIsPresent w e = (False, w1, e)"
      "cmd_Start w1 (command [''start'', ''--consistency=1.0'', ''--no-store-on-disk'']) = (None, w2)"
      "initEnv w2 (e\<lparr>stopOnClose := True\<rparr>) = (Returns (Some err), w3, e')"
      "w' = snd (Close w3 e')" "out = Returns (Some err)"
  | (confirm_failed) w1 w2 w3 w4 err where
      "instanceIsPresent w e = (False, w1, e)"
      "cmd_Start w1 (command [''start'', ''--consistency=1.0'', ''--no-store-on-disk'']) = (None, w2)"
      "initEnv w2 (e\<lparr>stopOnClose := True\<rparr>) = (Returns None, w3, e')"
      "confirmStartup w3 e' = Some (Some err, w4)"
      "w' = snd (Close w4 e')" "out = Returns (Some err)"
  | (confirmed) w1 w2 w3 where
      "instanceIsPresent w e = (False, w1, e)"
      "cmd_Start w1 (command [''start'', ''--consistency=1.0'', ''--no-store-on-disk'']) = (None, w2)"
      "initEnv w2 (e\<lparr>stopOnClose := True\<rparr>) = (Returns None, w3, e')"
      "confirmStartup w3 e' = Some (None, w')" "out = Returns None"
proof (cases "instanceIsPresent w e")
  case (fields present w1 e1)
  show thesis
  proof (cases present)
    case True
    with fields assms show thesis by (intro adopted) (auto simp: Start_def)
  next
    case False
    with fields have ip0: "instanceIsPresent w e = (False, w1, e1)" by simp
    have e1: "e1 = e" by (rule instanceIsPresent_False(1) [OF ip0])
    have ip: "instanceIsPresent w e = (False, w1, e)" using ip0 e1 by simp
    let ?argv = "command [''start'', ''--consistency=1.0'', ''--no-store-on-disk'']"
    show thesis
    proof (cases "cmd_Start w1 ?argv")
      case (Pair serr w2)
      show thesis
      proof (cases serr)
        case (Some err)
        with Pair ip False assms show thesis
          by (intro spawn_failed [of w1 err]) (auto simp: Start_def)
      next
        case None
        note cs = Pair [simplified None]
        show thesis
        proof (cases "initEnv w2 (e\<lparr>stopOnClose := True\<rparr>)")
          case (fields iout w3 e3)
          show thesis
          proof (cases iout)
            case Panics
            with fields cs ip assms show thesis
              by (intro init_panicked [of w1 w2]) (auto simp: Start_def)
          next
            case (Returns ierr)
            show thesis
            proof (cases ierr)
              case (Some err)
              with Returns fields cs ip assms show thesis
                by (intro init_failed [of w1 w2 err w3]) (auto simp: Start_def)
            next
              case None
              note ie = fields [simplified Returns None]
              show thesis
              proof (cases "confirmStartup w3 e3")
                case None
                with ie cs ip assms show thesis by (simp add: Start_def)
              next
                case (Some y)
                obtain cerr w4 where y: "y = (cerr, w4)" by (cases y)
                show thesis
                proof (cases cerr)
                  case None
                  with y Some ie cs ip assms show thesis
                    by (intro confirmed [of w1 w2 w3]) (auto simp: Start_def)
                next
                  case (Some err)
                  with y \<open>confirmStartup w3 e3 = Some y\<close> ie cs ip assms show thesis
                    by (intro confirm_failed [of w1 w2 w3 err w4]) (auto simp: Start_def)
                qed
              qed
            qed
          qed
        qed
      qed
    qed
  qed
qed


lemma Start_fixed_cases:
  assumes "Start_fixed w e = Some (r, w', e')"
  obtains
    (adopted) "instanceIsPresent_fixed w e = (True, w', e')" "r = None"
  | (spawn_failed) w1 err where
      "instanceIsPresent_fixed w e = (False, w1, e)"
      "cmd_Start w1 (command [''start'', ''--consistency=1.0'', ''--no-store-on-disk'',
                              ''--host-port='' @ defaultHost, ''--project='' @ defaultProject]) = (Some err, w')"
      "r = Some err" "e' = e\<lparr>stopOnClose := True\<rparr>"
  | (confirm_failed) w1 w2 w3 err where
      "instanceIsPresent_fixed w e = (False, w1, e)"
      "cmd_Start w1 (command [''start'', ''--consistency=1.0'', ''--no-store-on-disk'',
                              ''--host-port='' @ defaultHost, ''--project='' @ defaultProject]) = (None, w2)"
      "e' = e\<lparr>stopOnClose := True, Host := ''http://'' @ defaultHost, ProjectID := defaultProject\<rparr>"
      "confirmStartup w2 e' = Some (Some err, w3)"
      "w' = snd (Close w3 e')" "r = Some err"
  | (confirmed) w1 w2 w3 where
      "instanceIsPresent_fixed w e = (False, w1, e)"
      "cmd_Start w1 (command [''start'', ''--consistency=1.0'', ''--no-store-on-disk'',
                              ''--host-port='' @ defaultHost, ''--project='' @ defaultProject]) = (None, w2)"
      "e' = e\<lparr>stopOnClose := True, Host := ''http://'' @ defaultHost, ProjectID := defaultProject\<rparr>"
      "confirmStartup w2 e' = Some (None, w3)"
      "w' = setenv ''DATASTORE_PROJECT_ID'' defaultProject (setenv ''DATASTORE_EMULATOR_HOST'' defaultHost w3)"
      "r = None"
proof (cases "instanceIsPresent_fixed w e")
  case (fields present w1 e1)
  show thesis
  proof (cases present)
    case True
    with fields assms show thesis by (intro adopted) (auto simp: Start_fixed_def Let_def)
  next
    case False
    with fields have ip0: "instanceIsPresent_fixed w e = (False, w1, e1)" by simp
    have e1: "e1 = e" by (rule instanceIsPresent_fixed_False(1) [OF ip0])
    have ip: "instanceIsPresent_fixed w e = (False, w1, e)" using ip0 e1 by simp
    let ?argv = "command [''start'', ''--consistency=1.0'', ''--no-store-on-disk'',
                          ''--host-port='' @ defaultHost, ''--project='' @ defaultProject]"
    let ?e3 = "e\<lparr>stopOnClose := True, Host := ''http://'' @ defaultHost, ProjectID := defaultProject\<rparr>"
    show thesis
    proof (cases "cmd_Start w1 ?argv")
      case (Pair serr w2)
      show thesis
      proof (cases serr)
        case (Some err)
        with Pair ip assms show thesis
          by (intro spawn_failed [of w1 err]) (auto simp: Start_fixed_def Let_def)
      next
        case None
        note cs = Pair [simplified None]
        show thesis
        proof (cases "confirmStartup w2 ?e3")
          case None
          with cs ip assms show thesis by (simp add: Start_fixed_def Let_def)
        next
          case (Some y)
          obtain cerr w3 where y: "y = (cerr, w3)" by (cases y)
          show thesis
          proof (cases cerr)
            case None
            with y Some cs ip assms show thesis
              by (intro confirmed [of w1 w2 w3]) (auto simp: Start_fixed_def Let_def)
          next
            case (Some err)
            with y \<open>confirmStartup w2 ?e3 = Some y\<close> cs ip assms show thesis
              by (intro confirm_failed [of w1 w2 err w3]) (auto simp: Start_fixed_def Let_def)
          qed
        qed
      qed
    qed
  qed
qed

lemma Close_frame:
  assumes "k \<noteq> ''DATASTORE_EMULATOR_HOST''" and "k \<noteq> ''DATASTORE_PROJECT_ID''"
  shows "environ (snd (Close w e)) k = environ w k"
proof (cases "stopOnClose e")
  case True
  show ?thesis using Close_owned(1) [OF True, of w] assms by simp
next
  case False
  then show ?thesis by (simp add: Close_def)
qed

lemma cmd_Start_world:
  "cmd_Start w argv = (r, w') \<Longrightarrow>
     w' = w\<lparr>events := events w @ [CmdStart argv (r = None)]\<rparr>"
  by (auto simp: cmd_Start_def Let_def split: if_splits)

lemma cmd_Start_environ:
  "cmd_Start w argv = (r, w') \<Longrightarrow> environ w' = environ w"
  by (drule cmd_Start_world) simp

lemma confirmStartup_environ:
  "confirmStartup w e = Some (r, w') \<Longrightarrow> environ w' = environ w"
  by (drule confirmStartup_returns) auto

lemma no_host_no_discovery:
  "getenv w ''DATASTORE_HOST'' = [] \<Longrightarrow> instanceIsPresent w e = (False, w, e)"
  "getenv w ''DATASTORE_HOST'' = [] \<Longrightarrow> instanceIsPresent_fixed w e = (False, w, e)"
  by (simp_all add: instanceIsPresent_def instanceIsPresent_fixed_def)

lemma Start_keeps_DATASTORE_HOST:
  assumes "Start w e = Some (out, w', e')"
  shows "environ w' ''DATASTORE_HOST'' = environ w ''DATASTORE_HOST''"
  using assms
proof (cases rule: Start_cases)
  case adopted
  then show ?thesis
    by (auto simp: instanceIsPresent_def isHealthy_eq Let_def split: if_splits)
next
  case (spawn_failed w1 err)
  show ?thesis
    using instanceIsPresent_False(2) [OF spawn_failed(1)] cmd_Start_environ [OF spawn_failed(2)]
    by simp
next
  case (init_panicked w1 w2)
  show ?thesis
    using instanceIsPresent_False(2) [OF init_panicked(1)] cmd_Start_environ [OF init_panicked(2)]
      initEnv_frame(2) [OF init_panicked(3), of "''DATASTORE_HOST''"]
    by simp
next
  case (init_failed w1 w2 w3 err)
  show ?thesis
    using instanceIsPresent_False(2) [OF init_failed(1)] cmd_Start_environ [OF init_failed(2)]
      initEnv_frame(2) [OF init_failed(3), of "''DATASTORE_HOST''"]
      Close_frame [of "''DATASTORE_HOST''" w3 e'] init_failed(4)
    by simp
next
  case (confirm_failed w1 w2 w3 w4 err)
  show ?thesis
    using instanceIsPresent_False(2) [OF confirm_failed(1)] cmd_Start_environ [OF confirm_failed(2)]
      initEnv_frame(2) [OF confirm_failed(3), of "''DATASTORE_HOST''"]
      confirmStartup_environ [OF confirm_failed(4)]
      Close_frame [of "''DATASTORE_HOST''" w4 e'] confirm_failed(5)
    by simp
next
  case (confirmed w1 w2 w3)
  show ?thesis
    using instanceIsPresent_False(2) [OF confirmed(1)] cmd_Start_environ [OF confirmed(2)]
      initEnv_frame(2) [OF confirmed(3), of "''DATASTORE_HOST''"]
      confirmStartup_environ [OF confirmed(4)]
    by simp
qed

lemma Start_fixed_keeps_DATASTORE_HOST:
  assumes "Start_fixed w e = Some (r, w', e')"
  shows "environ w' ''DATASTORE_HOST'' = environ w ''DATASTORE_HOST''"
  using assms
proof (cases rule: Start_fixed_cases)
  case adopted
  then show ?thesis
    using request_world [of w e "getenv w ''DATASTORE_HOST''" GET]
    by (auto simp: instanceIsPresent_fixed_def Let_def split: if_splits prod.splits option.splits)
next
  case (spawn_failed w1 err)
  show ?thesis
    using instanceIsPresent_fixed_False(2) [OF spawn_failed(1)]
      cmd_Start_environ [OF spawn_failed(2)]
    by simp
next
  case (confirm_failed w1 w2 w3 err)
  show ?thesis
    using instanceIsPresent_fixed_False(2) [OF confirm_failed(1)]
      cmd_Start_environ [OF confirm_failed(2)]
      confirmStartup_environ [OF confirm_failed(4)]
      Close_frame [of "''DATASTORE_HOST''" w3 e'] confirm_failed(5)
    by simp
next
  case (confirmed w1 w2 w3)
  show ?thesis
    using instanceIsPresent_fixed_False(2) [OF confirmed(1)]
      cmd_Start_environ [OF confirmed(2)]
      confirmStartup_environ [OF confirmed(4)] confirmed(5)
    by (simp add: setenv_def)
qed

section \<open>Discovery\<close>

text \<open>
  Adoption on any handle. When both discovery variables are set and the probe that
  discovery makes succeeds, Start returns nil, the probe is its only event (no process
  is spawned, no variable is written), and the handle gets the discovered host and
  project. Its \<open>stopOnClose\<close> is left as it was: neither version assigns false to it.
\<close>

lemma Start_adopts:
  assumes "getenv w ''DATASTORE_HOST'' \<noteq> []" and "getenv w ''DATASTORE_PROJECT_ID'' \<noteq> []"
    and "fst (isHealthy w e)"
  shows "Start w e =
        Some (Returns None,
              w\<lparr>events := events w @ [HttpReq GET (Host e) (Status 200)]\<rparr>,
              e\<lparr>Host := getenv w ''DATASTORE_HOST'',
                ProjectID := getenv w ''DATASTORE_PROJECT_ID''\<rparr>)"
  using assms by (simp add: Start_def instanceIsPresent_def isHealthy_eq Let_def)

lemma Start_fixed_adopts:
  assumes "getenv v ''DATASTORE_HOST'' \<noteq> []" and "getenv v ''DATASTORE_PROJECT_ID'' \<noteq> []"
    and "fst (request v d (getenv v ''DATASTORE_HOST'') GET) = None"
  shows "Start_fixed v d =
        Some (None,
              v\<lparr>events := events v @ [HttpReq GET (Host d @ getenv v ''DATASTORE_HOST'') (Status 200)]\<rparr>,
              d\<lparr>Host := getenv v ''DATASTORE_HOST'',
                ProjectID := getenv v ''DATASTORE_PROJECT_ID''\<rparr>)"
proof -
  from assms(3) have ok: "net_reply v (length (events v)) GET (Host d @ getenv v ''DATASTORE_HOST'') = Status 200"
    by (simp add: request_ok)
  have "request v d (getenv v ''DATASTORE_HOST'') GET =
          (None, v\<lparr>events := events v @ [HttpReq GET (Host d @ getenv v ''DATASTORE_HOST'') (Status 200)]\<rparr>)"
    using assms(3) request_world [of v d "getenv v ''DATASTORE_HOST''" GET] ok
    by (cases "request v d (getenv v ''DATASTORE_HOST'') GET") simp
  with assms(1,2) show ?thesis
    by (simp add: Start_fixed_def instanceIsPresent_fixed_def Let_def)
qed

text \<open>
  C1: the claim is that a Start that adopts leaves the handle not owned. That holds on
  a new handle only. In the second version of the file, a first Start that cannot spawn
  returns its error with \<open>stopOnClose\<close> true; the caller exports the address of the
  running instance and calls Start again; Start adopts that instance and the handle is
  still owned, so that Close requests the shutdown of an instance this handle did not
  start. In \<^verbatim>\<open>emulator.go\<close> the same happens on a handle that launched an instance
  before and is started again where another instance is advertised at its address.
\<close>

theorem adoption_on_an_owned_handle_stays_owned:
  "Start_fixed retry_world zero_emulator =
     Some (Some ExecError, retry_failed_world, \<lparr>Host = [], ProjectID = [], stopOnClose = True\<rparr>)
   \<and> Start_fixed (advertise retry_failed_world) \<lparr>Host = [], ProjectID = [], stopOnClose = True\<rparr> =
     Some (None, retry_adopted_world,
           \<lparr>Host = ''http://localhost:8081'', ProjectID = ''test'', stopOnClose = True\<rparr>)
   \<and> fst (Close retry_adopted_world
             \<lparr>Host = ''http://localhost:8081'', ProjectID = ''test'', stopOnClose = True\<rparr>) = None
   \<and> events (snd (Close retry_adopted_world
             \<lparr>Host = ''http://localhost:8081'', ProjectID = ''test'', stopOnClose = True\<rparr>)) =
       [CmdStart [''gcloud'', ''beta'', ''emulators'', ''datastore'', ''start'',
                  ''--consistency=1.0'', ''--no-store-on-disk'',
                  ''--host-port=localhost:8088'', ''--project=test''] False,
        HttpReq GET ''http://localhost:8081'' (Status 200),
        Unsetenv ''DATASTORE_EMULATOR_HOST'', Unsetenv ''DATASTORE_PROJECT_ID'',
        HttpReq GET ''http://localhost:8081'' (Status 200),
        HttpReq POST ''http://localhost:8081/shutdown'' (Status 200)]
   \<and> Start adopt_world owned_emulator =
     Some (Returns None, relaunch_adopted_world,
           \<lparr>Host = ''http://localhost:8081'', ProjectID = ''test'', stopOnClose = True\<rparr>)
   \<and> fst (Close relaunch_adopted_world
             \<lparr>Host = ''http://localhost:8081'', ProjectID = ''test'', stopOnClose = True\<rparr>) = None
   \<and> events (snd (Close relaunch_adopted_world
             \<lparr>Host = ''http://localhost:8081'', ProjectID = ''test'', stopOnClose = True\<rparr>)) =
       [HttpReq GET ''http://localhost:8081'' (Status 200),
        Unsetenv ''DATASTORE_EMULATOR_HOST'', Unsetenv ''DATASTORE_PROJECT_ID'',
        HttpReq GET ''http://localhost:8081'' (Status 200),
        HttpReq POST ''http://localhost:8081/shutdown'' (Status 200)]"
  by (simp add: Start_def Start_fixed_def instanceIsPresent_def instanceIsPresent_fixed_def
        getenv_def retry_world_def advertise_def retry_failed_world_def retry_adopted_world_def
        relaunch_adopted_world_def adopt_world_def owned_emulator_def mk_world_def up_at_def
        zero_emulator_def cmd_Start_def command_def defaultHost_def defaultProject_def
        isHealthy_eq request_def Close_def unsetenv_def shutdownEndpoint_def Let_def)

text \<open>
  C2: the claim is that the probe of discovery is sent to the address read from
  \<^verbatim>\<open>DATASTORE_HOST\<close>. In \<^verbatim>\<open>emulator.go\<close> it is sent to \<^verbatim>\<open>e.Host\<close>, which
  discovery assigns only after the probe: on the handle of \<^verbatim>\<open>New\<close> the URL is empty.
  In the world below an emulator answers at the advertised address; \<^verbatim>\<open>emulator.go\<close>
  requests the empty URL, gets no answer and does not adopt, while the second version
  of the file requests the advertised address and adopts.
\<close>

theorem discovery_probes_the_handle_not_the_discovered_host:
  "getenv adopt_world ''DATASTORE_HOST'' = ''http://localhost:8081''
   \<and> getenv adopt_world ''DATASTORE_PROJECT_ID'' = ''test''
   \<and> net_reply adopt_world 0 GET ''http://localhost:8081'' = Status 200
   \<and> instanceIsPresent adopt_world zero_emulator =
        (False, adopt_world\<lparr>events := [HttpReq GET [] TransportError]\<rparr>, zero_emulator)
   \<and> instanceIsPresent_fixed adopt_world zero_emulator =
        (True, adopt_world\<lparr>events := [HttpReq GET ''http://localhost:8081'' (Status 200)]\<rparr>,
         \<lparr>Host = ''http://localhost:8081'', ProjectID = ''test'', stopOnClose = False\<rparr>)"
  by (simp add: instanceIsPresent_def instanceIsPresent_fixed_def getenv_def adopt_world_def
        mk_world_def up_at_def zero_emulator_def isHealthy_eq request_def Let_def)

section \<open>Launch\<close>

text \<open>
  C3: the claim is that a handle is marked owned only if it spawned a process. Both
  versions assign \<^verbatim>\<open>e.stopOnClose = true\<close> before \<^verbatim>\<open>cmd.Start()\<close>: when the
  binary cannot be started, Start returns the error, nothing was spawned (the only
  event is the failed start), and the handle is left with \<open>stopOnClose\<close> true.
\<close>

theorem failed_spawn_leaves_handle_owned:
  "Start no_gcloud_world zero_emulator =
     Some (Returns (Some ExecError),
           no_gcloud_world\<lparr>events :=
             [CmdStart [''gcloud'', ''beta'', ''emulators'', ''datastore'', ''start'',
                        ''--consistency=1.0'', ''--no-store-on-disk''] False]\<rparr>,
           \<lparr>Host = [], ProjectID = [], stopOnClose = True\<rparr>)
   \<and> Start_fixed no_gcloud_world zero_emulator =
     Some (Some ExecError,
           no_gcloud_world\<lparr>events :=
             [CmdStart [''gcloud'', ''beta'', ''emulators'', ''datastore'', ''start'',
                        ''--consistency=1.0'', ''--no-store-on-disk'',
                        ''--host-port=localhost:8088'', ''--project=test''] False]\<rparr>,
           \<lparr>Host = [], ProjectID = [], stopOnClose = True\<rparr>)"
  by (simp add: Start_def Start_fixed_def instanceIsPresent_def instanceIsPresent_fixed_def
        getenv_def no_gcloud_world_def mk_world_def zero_emulator_def cmd_Start_def command_def
        defaultHost_def defaultProject_def Let_def)

text \<open>
  C8: the claim is that the parsing of the \<^verbatim>\<open>env-init\<close> output never crashes. The
  two index expressions of the loop body are unchecked: a line with no space, or whose
  second token has no \<^verbatim>\<open>=\<close>, panics. When \<^verbatim>\<open>env-init\<close> ends its output with a
  blank line, Start panics after the process has been spawned; no error is returned
  and \<^verbatim>\<open>Close\<close> is not called.
\<close>

theorem initEnv_panics_on_a_line_without_space:
  "parse_line [] = None
   \<and> parse_line ''DATASTORE_HOST=http://localhost:8081'' = None
   \<and> parse_line ''export DATASTORE_HOST'' = None
   \<and> Start blank_line_world zero_emulator =
        Some (Panics,
              blank_line_world\<lparr>events :=
                [CmdStart [''gcloud'', ''beta'', ''emulators'', ''datastore'', ''start'',
                           ''--consistency=1.0'', ''--no-store-on-disk''] True,
                 CmdRun [''gcloud'', ''beta'', ''emulators'', ''datastore'', ''env-init'']
                   (Some (env_init_output @ [CHR 0x0A]))]\<rparr>,
              \<lparr>Host = [], ProjectID = [], stopOnClose = True\<rparr>)"
  by (simp add: parse_line_def Start_def instanceIsPresent_def getenv_def blank_line_world_def
        mk_world_def zero_emulator_def cmd_Start_def cmd_Run_def command_def initEnv_def
        scanner_lines_def scan_pieces_def dropCR_def MaxScanTokenSize_def env_init_output_def
        Let_def)

section \<open>Publication\<close>

text \<open>Two launches that succeed, one for each version, evaluated event by event.\<close>

lemma launch_run:
  "Start (launch_world ''http://localhost:8081'') zero_emulator =
     Some (Returns None,
           (launch_world ''http://localhost:8081'')
             \<lparr>environ := [''DATASTORE_EMULATOR_HOST'' \<mapsto> ''localhost:8081'',
                          ''DATASTORE_PROJECT_ID'' \<mapsto> ''test''],
              events :=
                [CmdStart [''gcloud'', ''beta'', ''emulators'', ''datastore'', ''start'',
                           ''--consistency=1.0'', ''--no-store-on-disk''] True,
                 CmdRun [''gcloud'', ''beta'', ''emulators'', ''datastore'', ''env-init'']
                   (Some env_init_output),
                 Setenv ''DATASTORE_EMULATOR_HOST'' ''localhost:8081'',
                 Setenv ''DATASTORE_PROJECT_ID'' ''test'',
                 HttpReq GET ''http://localhost:8081'' TransportError,
                 HttpReq GET ''http://localhost:8081'' TransportError,
                 HttpReq GET ''http://localhost:8081'' (Status 200)]\<rparr>,
           \<lparr>Host = ''http://localhost:8081'', ProjectID = ''test'', stopOnClose = True\<rparr>)"
  by (simp add: Start_def instanceIsPresent_def getenv_def launch_world_def
        mk_world_def up_at_def ticks_until_def zero_emulator_def cmd_Start_def cmd_Run_def command_def
        initEnv_def scanner_lines_def scanner_Err_def scan_pieces_def dropCR_def MaxScanTokenSize_def
        env_init_output_def parse_line_def map_index_def setenv_def setenv_ok_def
        confirmStartup_tick confirmStartup_deadline Let_def)

lemma launch_run_fixed:
  "Start_fixed (launch_world ''http://localhost:8088'') zero_emulator =
     Some (None,
           (launch_world ''http://localhost:8088'')
             \<lparr>environ := [''DATASTORE_EMULATOR_HOST'' \<mapsto> ''localhost:8088'',
                          ''DATASTORE_PROJECT_ID'' \<mapsto> ''test''],
              events :=
                [CmdStart [''gcloud'', ''beta'', ''emulators'', ''datastore'', ''start'',
                           ''--consistency=1.0'', ''--no-store-on-disk'',
                           ''--host-port=localhost:8088'', ''--project=test''] True,
                 HttpReq GET ''http://localhost:8088'' TransportError,
                 HttpReq GET ''http://localhost:8088'' TransportError,
                 HttpReq GET ''http://localhost:8088'' TransportError,
                 HttpReq GET ''http://localhost:8088'' TransportError,
                 HttpReq GET ''http://localhost:8088'' TransportError,
                 HttpReq GET ''http://localhost:8088'' (Status 200),
                 Setenv ''DATASTORE_EMULATOR_HOST'' ''localhost:8088'',
                 Setenv ''DATASTORE_PROJECT_ID'' ''test'']\<rparr>,
           \<lparr>Host = ''http://localhost:8088'', ProjectID = ''test'', stopOnClose = True\<rparr>)"
  by (simp add: Start_fixed_def instanceIsPresent_fixed_def getenv_def launch_world_def
        mk_world_def up_at_def ticks_until_def zero_emulator_def cmd_Start_def command_def
        defaultHost_def defaultProject_def setenv_def setenv_ok_def
        confirmStartup_tick confirmStartup_deadline Let_def)

lemma initEnv_events:
  assumes "initEnv w e = (out, w', e')"
  shows "out = Returns None \<and>
           (\<exists>so x y. events w' = events w @
              [CmdRun (command [''env-init'']) so,
               Setenv ''DATASTORE_EMULATOR_HOST'' x, Setenv ''DATASTORE_PROJECT_ID'' y])
         \<or> out \<noteq> Returns None \<and> environ w' = environ w \<and>
           (\<exists>so. events w' = events w @ [CmdRun (command [''env-init'']) so])"
  using assms
  by (auto simp: initEnv_def cmd_Run_def setenv_def Let_def split: option.splits prod.splits)

text \<open>
  C10: Start writes \<^verbatim>\<open>DATASTORE_EMULATOR_HOST\<close> (and the project), discovery reads
  \<^verbatim>\<open>DATASTORE_HOST\<close>, and these are different names. Start never writes
  \<^verbatim>\<open>DATASTORE_HOST\<close>: if it is unset before Start, it is unset after it, whatever
  Start returned, and discovery on any handle then answers "not present" without
  making a probe, although a successful launch has published the emulator's address.
  The first conjunct is \<^verbatim>\<open>emulator.go\<close>, the second the second version of the file.
\<close>

theorem publish_does_not_feed_discovery:
  "(getenv w ''DATASTORE_HOST'' = [] \<and> Start w e = Some (out, w', e') \<longrightarrow>
      getenv w' ''DATASTORE_HOST'' = [] \<and>
      instanceIsPresent w' e2 = (False, w', e2) \<and>
      (out = Returns None \<longrightarrow> (\<exists>x. Setenv ''DATASTORE_EMULATOR_HOST'' x \<in> set (events w'))))
   \<and>
   (getenv v ''DATASTORE_HOST'' = [] \<and> Start_fixed v d = Some (r, v', d') \<longrightarrow>
      getenv v' ''DATASTORE_HOST'' = [] \<and>
      instanceIsPresent_fixed v' d2 = (False, v', d2) \<and>
      (r = None \<longrightarrow> getenv v' ''DATASTORE_EMULATOR_HOST'' = defaultHost))
   \<and> ''DATASTORE_EMULATOR_HOST'' \<noteq> ''DATASTORE_HOST''"
proof (intro conjI impI)
  assume a: "getenv w ''DATASTORE_HOST'' = [] \<and> Start w e = Some (out, w', e')"
  then have s: "Start w e = Some (out, w', e')" and h: "getenv w ''DATASTORE_HOST'' = []"
    by simp_all
  show h': "getenv w' ''DATASTORE_HOST'' = []"
    using Start_keeps_DATASTORE_HOST [OF s] h by (simp add: getenv_def)
  show "instanceIsPresent w' e2 = (False, w', e2)"
    by (rule no_host_no_discovery(1) [OF h'])
  assume ok: "out = Returns None"
  from s show "\<exists>x. Setenv ''DATASTORE_EMULATOR_HOST'' x \<in> set (events w')"
  proof (cases rule: Start_cases)
    case adopted
    with no_host_no_discovery(1) [OF h, of e] show ?thesis by simp
  next
    case (confirmed w1 w2 w3)
    from initEnv_events [OF confirmed(3)]
    obtain so x y where "events w3 = events w2 @
              [CmdRun (command [''env-init'']) so,
               Setenv ''DATASTORE_EMULATOR_HOST'' x, Setenv ''DATASTORE_PROJECT_ID'' y]"
      by auto
    then have "Setenv ''DATASTORE_EMULATOR_HOST'' x \<in> set (events w3)"
      by simp
    with confirmStartup_returns [OF confirmed(4)] show ?thesis by auto
  qed (use ok in simp_all)
next
  assume a: "getenv v ''DATASTORE_HOST'' = [] \<and> Start_fixed v d = Some (r, v', d')"
  then have s: "Start_fixed v d = Some (r, v', d')" and h: "getenv v ''DATASTORE_HOST'' = []"
    by simp_all
  show h': "getenv v' ''DATASTORE_HOST'' = []"
    using Start_fixed_keeps_DATASTORE_HOST [OF s] h by (simp add: getenv_def)
  show "instanceIsPresent_fixed v' d2 = (False, v', d2)"
    by (rule no_host_no_discovery(2) [OF h'])
  assume ok: "r = None"
  from s show "getenv v' ''DATASTORE_EMULATOR_HOST'' = defaultHost"
  proof (cases rule: Start_fixed_cases)
    case adopted
    with no_host_no_discovery(2) [OF h, of d] show ?thesis by simp
  next
    case (confirmed w1 w2 w3)
    then show ?thesis
      by (simp add: getenv_def setenv_def setenv_ok_def defaultHost_def)
  qed (use ok in simp_all)
next
  show "''DATASTORE_EMULATOR_HOST'' \<noteq> ''DATASTORE_HOST''" by simp
qed

theorem publish_does_not_feed_discovery_witness:
  "getenv (launch_world ''http://localhost:8081'') ''DATASTORE_HOST'' = []
   \<and> Start (launch_world ''http://localhost:8081'') zero_emulator =
       Some (Returns None,
           (launch_world ''http://localhost:8081'')
             \<lparr>environ := [''DATASTORE_EMULATOR_HOST'' \<mapsto> ''localhost:8081'',
                          ''DATASTORE_PROJECT_ID'' \<mapsto> ''test''],
              events :=
                [CmdStart [''gcloud'', ''beta'', ''emulators'', ''datastore'', ''start'',
                           ''--consistency=1.0'', ''--no-store-on-disk''] True,
                 CmdRun [''gcloud'', ''beta'', ''emulators'', ''datastore'', ''env-init'']
                   (Some env_init_output),
                 Setenv ''DATASTORE_EMULATOR_HOST'' ''localhost:8081'',
                 Setenv ''DATASTORE_PROJECT_ID'' ''test'',
                 HttpReq GET ''http://localhost:8081'' TransportError,
                 HttpReq GET ''http://localhost:8081'' TransportError,
                 HttpReq GET ''http://localhost:8081'' (Status 200)]\<rparr>,
           \<lparr>Host = ''http://localhost:8081'', ProjectID = ''test'', stopOnClose = True\<rparr>)
   \<and> getenv (launch_world ''http://localhost:8088'') ''DATASTORE_HOST'' = []
   \<and> Start_fixed (launch_world ''http://localhost:8088'') zero_emulator =
       Some (None,
           (launch_world ''http://localhost:8088'')
             \<lparr>environ := [''DATASTORE_EMULATOR_HOST'' \<mapsto> ''localhost:8088'',
                          ''DATASTORE_PROJECT_ID'' \<mapsto> ''test''],
              events :=
                [CmdStart [''gcloud'', ''beta'', ''emulators'', ''datastore'', ''start'',
                           ''--consistency=1.0'', ''--no-store-on-disk'',
                           ''--host-port=localhost:8088'', ''--project=test''] True,
                 HttpReq GET ''http://localhost:8088'' TransportError,
                 HttpReq GET ''http://localhost:8088'' TransportError,
                 HttpReq GET ''http://localhost:8088'' TransportError,
                 HttpReq GET ''http://localhost:8088'' TransportError,
                 HttpReq GET ''http://localhost:8088'' TransportError,
                 HttpReq GET ''http://localhost:8088'' (Status 200),
                 Setenv ''DATASTORE_EMULATOR_HOST'' ''localhost:8088'',
                 Setenv ''DATASTORE_PROJECT_ID'' ''test'']\<rparr>,
           \<lparr>Host = ''http://localhost:8088'', ProjectID = ''test'', stopOnClose = True\<rparr>)
   \<and> getenv ((launch_world ''http://localhost:8081'')
             \<lparr>environ := [''DATASTORE_EMULATOR_HOST'' \<mapsto> ''localhost:8081'',
                          ''DATASTORE_PROJECT_ID'' \<mapsto> ''test'']\<rparr>) ''DATASTORE_HOST'' = []
   \<and> getenv ((launch_world ''http://localhost:8088'')
             \<lparr>environ := [''DATASTORE_EMULATOR_HOST'' \<mapsto> ''localhost:8088'',
                          ''DATASTORE_PROJECT_ID'' \<mapsto> ''test'']\<rparr>) ''DATASTORE_EMULATOR_HOST'' = ''localhost:8088''"
proof -
  have h: "getenv (launch_world a) ''DATASTORE_HOST'' = []" for a
    by (simp add: getenv_def launch_world_def mk_world_def)
  show ?thesis
    using h launch_run launch_run_fixed
      publish_does_not_feed_discovery
        [where w = "launch_world ''http://localhost:8081''" and e = zero_emulator
           and v = "launch_world ''http://localhost:8088''" and d = zero_emulator]
    by (simp add: getenv_def)
qed

text \<open>
  Where the \<^verbatim>\<open>Setenv\<close> events of one call of Start can stand among the events it
  adds.
\<close>

lemma before_marker:
  assumes "xs @ ys = pre @ z # post" and "z \<notin> set xs"
  shows "set xs \<subseteq> set pre"
  using assms
  by (auto simp: append_eq_append_conv2 append_eq_Cons_conv)

lemma Start_added_Setenv:
  assumes s: "Start w e = Some (out, w', e')"
    and m: "Setenv k x \<in> set (drop (length (events w)) (events w'))"
  shows "out = Returns None \<and> last (events w') = HttpReq GET (Host e') (Status 200)
         \<or> (\<exists>err. out = Returns (Some err)) \<and>
           environ w' ''DATASTORE_EMULATOR_HOST'' = None \<and>
           environ w' ''DATASTORE_PROJECT_ID'' = None"
  using s
proof (cases rule: Start_cases)
  case adopted
  then have "drop (length (events w)) (events w') = [HttpReq GET (Host e) (Status 200)]"
    by (auto simp: instanceIsPresent_def isHealthy_eq Let_def split: if_splits)
  with m show ?thesis by simp
next
  case (spawn_failed w1 err)
  from instanceIsPresent_False(3) [OF spawn_failed(1)] cmd_Start_world [OF spawn_failed(2)] m
  show ?thesis by (auto simp: list_all_iff)
next
  case (init_panicked w1 w2)
  from instanceIsPresent_False(3) [OF init_panicked(1)] cmd_Start_world [OF init_panicked(2)]
    initEnv_events [OF init_panicked(3)] m
  show ?thesis by (auto simp: list_all_iff)
next
  case (init_failed w1 w2 w3 err)
  have "stopOnClose e'" using initEnv_frame(1) [OF init_failed(3)] by simp
  from Close_owned(1) [OF this, of w3] init_failed(4,5) show ?thesis by simp
next
  case (confirm_failed w1 w2 w3 w4 err)
  have "stopOnClose e'" using initEnv_frame(1) [OF confirm_failed(3)] by simp
  from Close_owned(1) [OF this, of w4] confirm_failed(5,6) show ?thesis by simp
next
  case (confirmed w1 w2 w3)
  from confirmStartup_returns [OF confirmed(4)] confirmed(5) show ?thesis
    by (auto simp: last_map)
qed

lemma Start_fixed_added_Setenv:
  assumes s: "Start_fixed v d = Some (r, v', d')"
    and m: "drop (length (events v)) (events v') = pre @ Setenv k x # post"
  shows "r = None \<and> HttpReq GET (Host d') (Status 200) \<in> set pre"
proof -
  from m have mem: "Setenv k x \<in> set (drop (length (events v)) (events v'))" by simp
  let ?argv = "command [''start'', ''--consistency=1.0'', ''--no-store-on-disk'',
                        ''--host-port='' @ defaultHost, ''--project='' @ defaultProject]"
  from s show ?thesis
  proof (cases rule: Start_fixed_cases)
    case adopted
    then have "drop (length (events v)) (events v') =
        [HttpReq GET (Host d @ getenv v ''DATASTORE_HOST'')
           (net_reply v (length (events v)) GET (Host d @ getenv v ''DATASTORE_HOST''))]"
      using request_world [of v d "getenv v ''DATASTORE_HOST''" GET]
      by (auto simp: instanceIsPresent_fixed_def Let_def split: if_splits prod.splits option.splits)
    with mem show ?thesis by simp
  next
    case (spawn_failed w1 err)
    from instanceIsPresent_fixed_False(3) [OF spawn_failed(1)] obtain evs where
      w1: "w1 = v\<lparr>events := events v @ evs\<rparr>"
      and evs: "list_all (\<lambda>ev. \<exists>u r. ev = HttpReq GET u r) evs" by blast
    have "drop (length (events v)) (events v') = evs @ [CmdStart ?argv False]"
      using w1 cmd_Start_world [OF spawn_failed(2)] by simp
    with mem evs show ?thesis by (auto simp: list_all_iff)
  next
    case (confirm_failed w1 w2 w3 err)
    from instanceIsPresent_fixed_False(3) [OF confirm_failed(1)] obtain evs where
      w1: "w1 = v\<lparr>events := events v @ evs\<rparr>"
      and evs: "list_all (\<lambda>ev. \<exists>u r. ev = HttpReq GET u r) evs" by blast
    from confirmStartup_returns [OF confirm_failed(4)] obtain rs where
      w3: "w3 = w2\<lparr>events := events w2 @ map (HttpReq GET (Host d')) rs\<rparr>" by auto
    have own: "stopOnClose d'" using confirm_failed(3) by simp
    have w2: "w2 = w1\<lparr>events := events w1 @ [CmdStart ?argv True]\<rparr>"
      using cmd_Start_world [OF confirm_failed(2)] by simp
    have "\<exists>cl. drop (length (events v)) (events v') =
            evs @ CmdStart ?argv True # map (HttpReq GET (Host d')) rs @ cl \<and> Setenv k x \<notin> set cl"
      unfolding confirm_failed(5) Close_owned(2) [OF own] w3 w2 w1 by simp
    then obtain cl where
      "drop (length (events v)) (events v') =
         evs @ CmdStart ?argv True # map (HttpReq GET (Host d')) rs @ cl" "Setenv k x \<notin> set cl"
      by blast
    with mem evs show ?thesis by (auto simp: list_all_iff)
  next
    case (confirmed w1 w2 w3)
    from instanceIsPresent_fixed_False(3) [OF confirmed(1)] obtain evs where
      w1: "w1 = v\<lparr>events := events v @ evs\<rparr>"
      and evs: "list_all (\<lambda>ev. \<exists>u r. ev = HttpReq GET u r) evs" by blast
    from confirmStartup_returns [OF confirmed(4)] obtain rs where
      w3: "w3 = w2\<lparr>events := events w2 @ map (HttpReq GET (Host d')) rs\<rparr>"
      and rs: "rs \<noteq> []" "last rs = Status 200" by auto
    have w2: "w2 = w1\<lparr>events := events w1 @ [CmdStart ?argv True]\<rparr>"
      using cmd_Start_world [OF confirmed(2)] by simp
    let ?xs = "evs @ CmdStart ?argv True # map (HttpReq GET (Host d')) rs"
    let ?ys = "[Setenv ''DATASTORE_EMULATOR_HOST'' defaultHost,
                Setenv ''DATASTORE_PROJECT_ID'' defaultProject]"
    have added: "drop (length (events v)) (events v') = ?xs @ ?ys"
      unfolding confirmed(5) w3 w2 w1 by (simp add: setenv_def)
    have "Setenv k x \<notin> set ?xs" using evs by (auto simp: list_all_iff)
    with added m have sub: "set ?xs \<subseteq> set pre"
      using before_marker [of ?xs ?ys pre "Setenv k x" post] by simp
    have "Status 200 \<in> set rs" using rs last_in_set [of rs] by simp
    then have "HttpReq GET (Host d') (Status 200) \<in> set ?xs" by simp
    with sub confirmed(6) show ?thesis by blast
  qed
qed


text \<open>
  C9, as stated, fails in \<^verbatim>\<open>emulator.go\<close>: \<^verbatim>\<open>initEnv\<close> writes both variables
  before \<^verbatim>\<open>confirmStartup\<close> is called. In the run below the variables are set
  right after \<^verbatim>\<open>env-init\<close>, the next two health requests fail, the third succeeds,
  and Start returns nil.
\<close>

theorem emulator_go_publishes_before_confirming:
  "initEnv ((launch_world ''http://localhost:8081'')
              \<lparr>events := [CmdStart [''gcloud'', ''beta'', ''emulators'', ''datastore'', ''start'',
                                    ''--consistency=1.0'', ''--no-store-on-disk''] True]\<rparr>)
           \<lparr>Host = [], ProjectID = [], stopOnClose = True\<rparr> =
     (Returns None,
      (launch_world ''http://localhost:8081'')
        \<lparr>environ := [''DATASTORE_EMULATOR_HOST'' \<mapsto> ''localhost:8081'',
                     ''DATASTORE_PROJECT_ID'' \<mapsto> ''test''],
         events :=
           [CmdStart [''gcloud'', ''beta'', ''emulators'', ''datastore'', ''start'',
                      ''--consistency=1.0'', ''--no-store-on-disk''] True,
            CmdRun [''gcloud'', ''beta'', ''emulators'', ''datastore'', ''env-init'']
              (Some env_init_output),
            Setenv ''DATASTORE_EMULATOR_HOST'' ''localhost:8081'',
            Setenv ''DATASTORE_PROJECT_ID'' ''test'']\<rparr>,
      \<lparr>Host = ''http://localhost:8081'', ProjectID = ''test'', stopOnClose = True\<rparr>)
   \<and> Start (launch_world ''http://localhost:8081'') zero_emulator =
     Some (Returns None,
           (launch_world ''http://localhost:8081'')
             \<lparr>environ := [''DATASTORE_EMULATOR_HOST'' \<mapsto> ''localhost:8081'',
                          ''DATASTORE_PROJECT_ID'' \<mapsto> ''test''],
              events :=
                [CmdStart [''gcloud'', ''beta'', ''emulators'', ''datastore'', ''start'',
                           ''--consistency=1.0'', ''--no-store-on-disk''] True,
                 CmdRun [''gcloud'', ''beta'', ''emulators'', ''datastore'', ''env-init'']
                   (Some env_init_output),
                 Setenv ''DATASTORE_EMULATOR_HOST'' ''localhost:8081'',
                 Setenv ''DATASTORE_PROJECT_ID'' ''test'',
                 HttpReq GET ''http://localhost:8081'' TransportError,
                 HttpReq GET ''http://localhost:8081'' TransportError,
                 HttpReq GET ''http://localhost:8081'' (Status 200)]\<rparr>,
           \<lparr>Host = ''http://localhost:8081'', ProjectID = ''test'', stopOnClose = True\<rparr>)"
proof
  show "initEnv ((launch_world ''http://localhost:8081'')
              \<lparr>events := [CmdStart [''gcloud'', ''beta'', ''emulators'', ''datastore'', ''start'',
                                    ''--consistency=1.0'', ''--no-store-on-disk''] True]\<rparr>)
           \<lparr>Host = [], ProjectID = [], stopOnClose = True\<rparr> =
     (Returns None,
      (launch_world ''http://localhost:8081'')
        \<lparr>environ := [''DATASTORE_EMULATOR_HOST'' \<mapsto> ''localhost:8081'',
                     ''DATASTORE_PROJECT_ID'' \<mapsto> ''test''],
         events :=
           [CmdStart [''gcloud'', ''beta'', ''emulators'', ''datastore'', ''start'',
                      ''--consistency=1.0'', ''--no-store-on-disk''] True,
            CmdRun [''gcloud'', ''beta'', ''emulators'', ''datastore'', ''env-init'']
              (Some env_init_output),
            Setenv ''DATASTORE_EMULATOR_HOST'' ''localhost:8081'',
            Setenv ''DATASTORE_PROJECT_ID'' ''test'']\<rparr>,
      \<lparr>Host = ''http://localhost:8081'', ProjectID = ''test'', stopOnClose = True\<rparr>)"
    by (simp add: launch_world_def mk_world_def cmd_Run_def command_def
        initEnv_def scanner_lines_def scanner_Err_def scan_pieces_def dropCR_def MaxScanTokenSize_def
        env_init_output_def parse_line_def map_index_def setenv_def setenv_ok_def Let_def)
qed (rule launch_run)

text \<open>
  C9, amended. In \<^verbatim>\<open>emulator.go\<close> the variables are written before confirmation,
  but a call of Start that has written them and returns does so in one of two ways:
  with nil, and then the last thing it did was a health request answered with status
  200; or with an error, and then both variables are unset again. In the second
  version of the file every \<^verbatim>\<open>Setenv\<close> of a call of Start comes after a health request
  to the handle's \<open>Host\<close> answered with status 200, and that call returns nil.
\<close>

theorem publication_and_confirmation:
  "(Start w e = Some (out, w', e') \<and>
    Setenv k x \<in> set (drop (length (events w)) (events w')) \<longrightarrow>
      out = Returns None \<and> last (events w') = HttpReq GET (Host e') (Status 200)
      \<or> (\<exists>err. out = Returns (Some err)) \<and>
        environ w' ''DATASTORE_EMULATOR_HOST'' = None \<and>
        environ w' ''DATASTORE_PROJECT_ID'' = None)
   \<and>
   (Start_fixed v d = Some (r, v', d') \<and>
    drop (length (events v)) (events v') = pre @ Setenv k' x' # post \<longrightarrow>
      r = None \<and> HttpReq GET (Host d') (Status 200) \<in> set pre)"
  using Start_added_Setenv [of w e out w' e' k x]
    Start_fixed_added_Setenv [of v d r v' d' pre k' x' post]
  by blast

theorem publication_and_confirmation_witness:
  "Start (launch_world ''http://localhost:8081'') zero_emulator =
     Some (Returns None,
           (launch_world ''http://localhost:8081'')
             \<lparr>environ := [''DATASTORE_EMULATOR_HOST'' \<mapsto> ''localhost:8081'',
                          ''DATASTORE_PROJECT_ID'' \<mapsto> ''test''],
              events :=
                [CmdStart [''gcloud'', ''beta'', ''emulators'', ''datastore'', ''start'',
                           ''--consistency=1.0'', ''--no-store-on-disk''] True,
                 CmdRun [''gcloud'', ''beta'', ''emulators'', ''datastore'', ''env-init'']
                   (Some env_init_output),
                 Setenv ''DATASTORE_EMULATOR_HOST'' ''localhost:8081'',
                 Setenv ''DATASTORE_PROJECT_ID'' ''test'',
                 HttpReq GET ''http://localhost:8081'' TransportError,
                 HttpReq GET ''http://localhost:8081'' TransportError,
                 HttpReq GET ''http://localhost:8081'' (Status 200)]\<rparr>,
           \<lparr>Host = ''http://localhost:8081'', ProjectID = ''test'', stopOnClose = True\<rparr>)
   \<and> Start_fixed (launch_world ''http://localhost:8088'') zero_emulator =
     Some (None,
           (launch_world ''http://localhost:8088'')
             \<lparr>environ := [''DATASTORE_EMULATOR_HOST'' \<mapsto> ''localhost:8088'',
                          ''DATASTORE_PROJECT_ID'' \<mapsto> ''test''],
              events :=
                [CmdStart [''gcloud'', ''beta'', ''emulators'', ''datastore'', ''start'',
                           ''--consistency=1.0'', ''--no-store-on-disk'',
                           ''--host-port=localhost:8088'', ''--project=test''] True,
                 HttpReq GET ''http://localhost:8088'' TransportError,
                 HttpReq GET ''http://localhost:8088'' TransportError,
                 HttpReq GET ''http://localhost:8088'' TransportError,
                 HttpReq GET ''http://localhost:8088'' TransportError,
                 HttpReq GET ''http://localhost:8088'' TransportError,
                 HttpReq GET ''http://localhost:8088'' (Status 200),
                 Setenv ''DATASTORE_EMULATOR_HOST'' ''localhost:8088'',
                 Setenv ''DATASTORE_PROJECT_ID'' ''test'']\<rparr>,
           \<lparr>Host = ''http://localhost:8088'', ProjectID = ''test'', stopOnClose = True\<rparr>)
   \<and> HttpReq GET ''http://localhost:8088'' (Status 200) \<in>
       set [CmdStart [''gcloud'', ''beta'', ''emulators'', ''datastore'', ''start'',
                      ''--consistency=1.0'', ''--no-store-on-disk'',
                      ''--host-port=localhost:8088'', ''--project=test''] True,
            HttpReq GET ''http://localhost:8088'' TransportError,
            HttpReq GET ''http://localhost:8088'' TransportError,
            HttpReq GET ''http://localhost:8088'' TransportError,
            HttpReq GET ''http://localhost:8088'' TransportError,
            HttpReq GET ''http://localhost:8088'' TransportError,
            HttpReq GET ''http://localhost:8088'' (Status 200)]"
proof -
  have ev: "events (launch_world a) = []" for a
    by (simp add: launch_world_def mk_world_def)
  show ?thesis
    using launch_run launch_run_fixed
      publication_and_confirmation
        [where w = "launch_world ''http://localhost:8081''" and e = zero_emulator
           and k = "''DATASTORE_EMULATOR_HOST''" and x = "''localhost:8081''"
           and v = "launch_world ''http://localhost:8088''" and d = zero_emulator
           and k' = "''DATASTORE_EMULATOR_HOST''" and x' = "''localhost:8088''"
           and post = "[Setenv ''DATASTORE_PROJECT_ID'' ''test'']"
           and pre = "[CmdStart [''gcloud'', ''beta'', ''emulators'', ''datastore'', ''start'',
                      ''--consistency=1.0'', ''--no-store-on-disk'',
                      ''--host-port=localhost:8088'', ''--project=test''] True,
            HttpReq GET ''http://localhost:8088'' TransportError,
            HttpReq GET ''http://localhost:8088'' TransportError,
            HttpReq GET ''http://localhost:8088'' TransportError,
            HttpReq GET ''http://localhost:8088'' TransportError,
            HttpReq GET ''http://localhost:8088'' TransportError,
            HttpReq GET ''http://localhost:8088'' (Status 200)]"]
    by (simp add: ev)
qed

section \<open>Teardown\<close>

text \<open>
  C5: on a handle that is not owned, Close returns nil at once: no request is made,
  no variable is touched, and the world is the one it was called in. Close never
  assigns to the handle.
\<close>

theorem Close_not_owned_is_inert:
  "\<not> stopOnClose e \<Longrightarrow> Close w e = (None, w)"
  by (simp add: Close_def)

theorem Close_not_owned_is_inert_witness:
  "\<not> stopOnClose zero_emulator \<and> Close adopt_world zero_emulator = (None, adopt_world)"
  using Close_not_owned_is_inert [of zero_emulator adopt_world]
  by (simp add: zero_emulator_def)

text \<open>
  C4: on an owned handle Close first unsets both published variables, whatever the
  health check will say; then it makes one health request; the shutdown request
  follows only if that health request was answered with status 200. When it was not,
  Close returns nil.
\<close>

theorem Close_owned_unsets_then_shuts_down:
  assumes "stopOnClose e"
  shows "environ (snd (Close w e)) =
           (environ w)(''DATASTORE_EMULATOR_HOST'' := None, ''DATASTORE_PROJECT_ID'' := None)
       \<and> events (snd (Close w e)) =
           events w @ [Unsetenv ''DATASTORE_EMULATOR_HOST'', Unsetenv ''DATASTORE_PROJECT_ID'',
                       HttpReq GET (Host e) (net_reply w (length (events w) + 2) GET (Host e))] @
           (if net_reply w (length (events w) + 2) GET (Host e) = Status 200
            then [HttpReq POST (Host e @ ''/shutdown'')
                    (net_reply w (length (events w) + 3) POST (Host e @ ''/shutdown''))]
            else [])
       \<and> (fst (Close w e) = None) =
           (if net_reply w (length (events w) + 2) GET (Host e) = Status 200
            then net_reply w (length (events w) + 3) POST (Host e @ ''/shutdown'') = Status 200
            else True)"
  using Close_owned [OF assms, of w] by simp

theorem Close_owned_unsets_then_shuts_down_witness:
  "stopOnClose owned_emulator
   \<and> environ (snd (Close running_world owned_emulator)) ''DATASTORE_EMULATOR_HOST'' = None
   \<and> environ (snd (Close running_world owned_emulator)) ''DATASTORE_PROJECT_ID'' = None
   \<and> events (snd (Close running_world owned_emulator)) =
       [Unsetenv ''DATASTORE_EMULATOR_HOST'', Unsetenv ''DATASTORE_PROJECT_ID'',
        HttpReq GET ''http://localhost:8081'' (Status 200),
        HttpReq POST ''http://localhost:8081/shutdown'' (Status 200)]
   \<and> fst (Close running_world owned_emulator) = None"
  using Close_owned_unsets_then_shuts_down [of owned_emulator running_world]
  by (simp add: owned_emulator_def running_world_def mk_world_def up_at_def)

section \<open>Cleanup after a failed confirmation\<close>

text \<open>The two runs in which the emulator never answers, step by step.\<close>

lemma dead_steps:
  "instanceIsPresent (dead_world 28) zero_emulator = (False, dead_world 28, zero_emulator)"
  "cmd_Start (dead_world 28) (command [''start'', ''--consistency=1.0'', ''--no-store-on-disk''])
     = (None, spawned_world)"
  "initEnv spawned_world (zero_emulator\<lparr>stopOnClose := True\<rparr>) = (Returns None, inited_world, owned_emulator)"
  by (simp_all add: instanceIsPresent_def getenv_def dead_world_def spawned_world_def inited_world_def
        mk_world_def zero_emulator_def owned_emulator_def cmd_Start_def cmd_Run_def command_def
        initEnv_def scanner_lines_def scanner_Err_def scan_pieces_def dropCR_def MaxScanTokenSize_def
        env_init_output_def parse_line_def map_index_def setenv_def setenv_ok_def Let_def)

lemma dead_poll:
  "confirmStartup inited_world owned_emulator = Some (Some DeadlineExceeded, polled_world)"
proof -
  have "confirmStartup inited_world owned_emulator =
          Some (Some DeadlineExceeded,
                inited_world\<lparr>events := events inited_world @
                   replicate 24 (HttpReq GET (Host owned_emulator) TransportError)\<rparr>)"
    by (rule confirmStartup_all_fail)
       (simp_all add: inited_world_def spawned_world_def dead_world_def mk_world_def
          ticks_until_def never_up_def)
  then show ?thesis by (simp add: polled_world_def owned_emulator_def)
qed

lemma dead_close:
  "Close polled_world owned_emulator = (None, closed_world)"
  by (simp add: Close_def unsetenv_def isHealthy_eq closed_world_def polled_world_def inited_world_def
        spawned_world_def dead_world_def mk_world_def never_up_def owned_emulator_def)

lemma dead_run:
  "Start (dead_world 28) zero_emulator =
     Some (Returns (Some DeadlineExceeded), closed_world, owned_emulator)"
  by (simp add: Start_def dead_steps dead_poll dead_close)


lemma dead_steps_fixed:
  "instanceIsPresent_fixed (dead_world 150) zero_emulator = (False, dead_world 150, zero_emulator)"
  "cmd_Start (dead_world 150)
     (command [''start'', ''--consistency=1.0'', ''--no-store-on-disk'',
               ''--host-port=localhost:8088'', ''--project=test''])
     = (None, spawned_world_fixed)"
  "zero_emulator\<lparr>stopOnClose := True, Host := ''http://localhost:8088'', ProjectID := ''test''\<rparr>
     = owned_emulator_fixed"
  by (simp_all add: instanceIsPresent_fixed_def getenv_def dead_world_def spawned_world_fixed_def
        mk_world_def zero_emulator_def owned_emulator_fixed_def cmd_Start_def command_def
        defaultHost_def defaultProject_def Let_def)

lemma dead_poll_fixed:
  "confirmStartup spawned_world_fixed owned_emulator_fixed =
     Some (Some DeadlineExceeded, polled_world_fixed)"
proof -
  have "confirmStartup spawned_world_fixed owned_emulator_fixed =
          Some (Some DeadlineExceeded,
                spawned_world_fixed\<lparr>events := events spawned_world_fixed @
                   replicate 149 (HttpReq GET (Host owned_emulator_fixed) TransportError)\<rparr>)"
    by (rule confirmStartup_all_fail)
       (simp_all add: spawned_world_fixed_def dead_world_def mk_world_def
          ticks_until_def never_up_def)
  then show ?thesis by (simp add: polled_world_fixed_def owned_emulator_fixed_def)
qed

lemma dead_close_fixed:
  "Close polled_world_fixed owned_emulator_fixed = (None, closed_world_fixed)"
  by (simp add: Close_def unsetenv_def isHealthy_eq closed_world_fixed_def polled_world_fixed_def
        spawned_world_fixed_def dead_world_def mk_world_def never_up_def owned_emulator_fixed_def)

lemma dead_run_fixed:
  "Start_fixed (dead_world 150) zero_emulator =
     Some (Some DeadlineExceeded, closed_world_fixed, owned_emulator_fixed)"
  by (simp add: Start_fixed_def dead_steps_fixed dead_poll_fixed dead_close_fixed Let_def
        defaultHost_def defaultProject_def)

text \<open>
  What the cleanup does, in every world. When discovery found nothing, the spawn
  succeeded (and, in \<^verbatim>\<open>emulator.go\<close>, \<^verbatim>\<open>initEnv\<close> returned nil) and
  \<^verbatim>\<open>confirmStartup\<close> returns an error, that error is the timeout error, and Start
  returns it after calling \<^verbatim>\<open>Close\<close> on the handle, which is owned: both variables
  are unset, one more health request is made, and the shutdown request follows only if
  that one was answered with status 200. What \<^verbatim>\<open>Close\<close> returns does not appear in
  the result of Start. When that health request is not answered with status 200,
  \<^verbatim>\<open>Close\<close> adds no POST request and returns nil.
\<close>

lemma Close_unreachable_sends_no_shutdown:
  assumes "stopOnClose e"
    and "net_reply w (length (events w) + 2) GET (Host e) \<noteq> Status 200"
  shows "fst (Close w e) = None"
    and "filter is_POST (events (snd (Close w e))) = filter is_POST (events w)"
  using Close_owned(2,3) [OF assms(1), of w] assms(2)
  by (simp_all add: is_POST_def)

lemma timeout_cleanup_is_Close:
  "(instanceIsPresent w e = (False, w1, e1) \<and>
    cmd_Start w1 (command [''start'', ''--consistency=1.0'', ''--no-store-on-disk'']) = (None, w2) \<and>
    initEnv w2 (e1\<lparr>stopOnClose := True\<rparr>) = (Returns None, w3, e3) \<and>
    confirmStartup w3 e3 = Some (Some err, w4) \<longrightarrow>
      err = DeadlineExceeded \<and>
      Start w e = Some (Returns (Some DeadlineExceeded), snd (Close w4 e3), e3) \<and>
      environ (snd (Close w4 e3)) =
        (environ w4)(''DATASTORE_EMULATOR_HOST'' := None, ''DATASTORE_PROJECT_ID'' := None) \<and>
      events (snd (Close w4 e3)) =
        events w4 @ [Unsetenv ''DATASTORE_EMULATOR_HOST'', Unsetenv ''DATASTORE_PROJECT_ID'',
                     HttpReq GET (Host e3) (net_reply w4 (length (events w4) + 2) GET (Host e3))] @
        (if net_reply w4 (length (events w4) + 2) GET (Host e3) = Status 200
         then [HttpReq POST (Host e3 @ ''/shutdown'')
                 (net_reply w4 (length (events w4) + 3) POST (Host e3 @ ''/shutdown''))]
         else []))
   \<and>
   (instanceIsPresent_fixed v d = (False, v1, d1) \<and>
    cmd_Start v1 (command [''start'', ''--consistency=1.0'', ''--no-store-on-disk'',
                           ''--host-port='' @ defaultHost, ''--project='' @ defaultProject]) = (None, v2) \<and>
    d3 = d1\<lparr>stopOnClose := True, Host := ''http://'' @ defaultHost, ProjectID := defaultProject\<rparr> \<and>
    confirmStartup v2 d3 = Some (Some err', v3) \<longrightarrow>
      err' = DeadlineExceeded \<and>
      Start_fixed v d = Some (Some DeadlineExceeded, snd (Close v3 d3), d3) \<and>
      environ (snd (Close v3 d3)) =
        (environ v3)(''DATASTORE_EMULATOR_HOST'' := None, ''DATASTORE_PROJECT_ID'' := None) \<and>
      events (snd (Close v3 d3)) =
        events v3 @ [Unsetenv ''DATASTORE_EMULATOR_HOST'', Unsetenv ''DATASTORE_PROJECT_ID'',
                     HttpReq GET (Host d3) (net_reply v3 (length (events v3) + 2) GET (Host d3))] @
        (if net_reply v3 (length (events v3) + 2) GET (Host d3) = Status 200
         then [HttpReq POST (Host d3 @ ''/shutdown'')
                 (net_reply v3 (length (events v3) + 3) POST (Host d3 @ ''/shutdown''))]
         else []))"
proof (intro conjI impI)
  assume h: "instanceIsPresent w e = (False, w1, e1) \<and>
    cmd_Start w1 (command [''start'', ''--consistency=1.0'', ''--no-store-on-disk'']) = (None, w2) \<and>
    initEnv w2 (e1\<lparr>stopOnClose := True\<rparr>) = (Returns None, w3, e3) \<and>
    confirmStartup w3 e3 = Some (Some err, w4)"
  then have c: "confirmStartup w3 e3 = Some (Some err, w4)"
    and i: "initEnv w2 (e1\<lparr>stopOnClose := True\<rparr>) = (Returns None, w3, e3)" by simp_all
  from confirmStartup_returns [OF c] show err: "err = DeadlineExceeded" by auto
  from h err show "Start w e = Some (Returns (Some DeadlineExceeded), snd (Close w4 e3), e3)"
    by (simp add: Start_def)
  have own: "stopOnClose e3" using initEnv_frame(1) [OF i] by simp
  show "environ (snd (Close w4 e3)) =
        (environ w4)(''DATASTORE_EMULATOR_HOST'' := None, ''DATASTORE_PROJECT_ID'' := None)"
    by (rule Close_owned(1) [OF own])
  show "events (snd (Close w4 e3)) =
        events w4 @ [Unsetenv ''DATASTORE_EMULATOR_HOST'', Unsetenv ''DATASTORE_PROJECT_ID'',
                     HttpReq GET (Host e3) (net_reply w4 (length (events w4) + 2) GET (Host e3))] @
        (if net_reply w4 (length (events w4) + 2) GET (Host e3) = Status 200
         then [HttpReq POST (Host e3 @ ''/shutdown'')
                 (net_reply w4 (length (events w4) + 3) POST (Host e3 @ ''/shutdown''))]
         else [])"
    by (rule Close_owned(2) [OF own])
next
  assume h: "instanceIsPresent_fixed v d = (False, v1, d1) \<and>
    cmd_Start v1 (command [''start'', ''--consistency=1.0'', ''--no-store-on-disk'',
                           ''--host-port='' @ defaultHost, ''--project='' @ defaultProject]) = (None, v2) \<and>
    d3 = d1\<lparr>stopOnClose := True, Host := ''http://'' @ defaultHost, ProjectID := defaultProject\<rparr> \<and>
    confirmStartup v2 d3 = Some (Some err', v3)"
  then have ip: "instanceIsPresent_fixed v d = (False, v1, d1)"
    and cs: "cmd_Start v1 (command [''start'', ''--consistency=1.0'', ''--no-store-on-disk'',
                           ''--host-port='' @ defaultHost, ''--project='' @ defaultProject]) = (None, v2)"
    and d3: "d3 = d1\<lparr>stopOnClose := True, Host := ''http://'' @ defaultHost, ProjectID := defaultProject\<rparr>"
    and c: "confirmStartup v2 d3 = Some (Some err', v3)"
    by blast+
  from confirmStartup_returns [OF c] show err: "err' = DeadlineExceeded" by auto
  show "Start_fixed v d = Some (Some DeadlineExceeded, snd (Close v3 d3), d3)"
    unfolding Start_fixed_def ip using cs c [unfolded d3 err] unfolding d3
    by (simp add: Let_def)
  have own: "stopOnClose d3" using d3 by simp
  show "environ (snd (Close v3 d3)) =
        (environ v3)(''DATASTORE_EMULATOR_HOST'' := None, ''DATASTORE_PROJECT_ID'' := None)"
    by (rule Close_owned(1) [OF own])
  show "events (snd (Close v3 d3)) =
        events v3 @ [Unsetenv ''DATASTORE_EMULATOR_HOST'', Unsetenv ''DATASTORE_PROJECT_ID'',
                     HttpReq GET (Host d3) (net_reply v3 (length (events v3) + 2) GET (Host d3))] @
        (if net_reply v3 (length (events v3) + 2) GET (Host d3) = Status 200
         then [HttpReq POST (Host d3 @ ''/shutdown'')
                 (net_reply v3 (length (events v3) + 3) POST (Host d3 @ ''/shutdown''))]
         else [])"
    by (rule Close_owned(2) [OF own])
qed

lemma timeout_cleanup_is_Close_at_dead_world:
  "(instanceIsPresent (dead_world 28) zero_emulator = (False, dead_world 28, zero_emulator) \<and>
    cmd_Start (dead_world 28) (command [''start'', ''--consistency=1.0'', ''--no-store-on-disk''])
      = (None, spawned_world) \<and>
    initEnv spawned_world (zero_emulator\<lparr>stopOnClose := True\<rparr>)
      = (Returns None, inited_world, owned_emulator) \<and>
    confirmStartup inited_world owned_emulator = Some (Some DeadlineExceeded, polled_world))
   \<and> Start (dead_world 28) zero_emulator =
       Some (Returns (Some DeadlineExceeded), snd (Close polled_world owned_emulator), owned_emulator)
   \<and> snd (Close polled_world owned_emulator) = closed_world
   \<and> (instanceIsPresent_fixed (dead_world 150) zero_emulator = (False, dead_world 150, zero_emulator) \<and>
      cmd_Start (dead_world 150)
        (command [''start'', ''--consistency=1.0'', ''--no-store-on-disk'',
                  ''--host-port='' @ defaultHost, ''--project='' @ defaultProject])
        = (None, spawned_world_fixed) \<and>
      confirmStartup spawned_world_fixed owned_emulator_fixed =
        Some (Some DeadlineExceeded, polled_world_fixed))
   \<and> Start_fixed (dead_world 150) zero_emulator =
       Some (Some DeadlineExceeded, snd (Close polled_world_fixed owned_emulator_fixed),
             owned_emulator_fixed)
   \<and> snd (Close polled_world_fixed owned_emulator_fixed) = closed_world_fixed"
  using timeout_cleanup_is_Close
      [where w = "dead_world 28" and e = zero_emulator and ?w1.0 = "dead_world 28"
         and ?e1.0 = zero_emulator and ?w2.0 = spawned_world and ?w3.0 = inited_world
         and ?e3.0 = owned_emulator and err = DeadlineExceeded and ?w4.0 = polled_world
         and v = "dead_world 150" and d = zero_emulator and ?v1.0 = "dead_world 150"
         and ?d1.0 = zero_emulator and ?v2.0 = spawned_world_fixed
         and ?d3.0 = owned_emulator_fixed and err' = DeadlineExceeded
         and ?v3.0 = polled_world_fixed]
    dead_steps dead_poll dead_close dead_steps_fixed dead_poll_fixed dead_close_fixed
  by (simp add: defaultHost_def defaultProject_def)

text \<open>
  C6: the claim is that the cleanup after a timeout terminates the spawned process.
  The only means \<^verbatim>\<open>Close\<close> has is the shutdown request, which it makes only after
  a health check that succeeds; the package keeps no reference to the process it
  spawned. In both runs below the process is spawned, every health request fails, Start
  returns the timeout error after calling \<^verbatim>\<open>Close\<close>, and the events hold no POST
  request at all: the spawned process is left running.
\<close>

theorem timed_out_process_is_left_running:
  "Start (dead_world 28) zero_emulator =
     Some (Returns (Some DeadlineExceeded), closed_world, owned_emulator)
   \<and> events closed_world =
       [CmdStart [''gcloud'', ''beta'', ''emulators'', ''datastore'', ''start'',
                  ''--consistency=1.0'', ''--no-store-on-disk''] True,
        CmdRun [''gcloud'', ''beta'', ''emulators'', ''datastore'', ''env-init'']
          (Some env_init_output),
        Setenv ''DATASTORE_EMULATOR_HOST'' ''localhost:8081'',
        Setenv ''DATASTORE_PROJECT_ID'' ''test''] @
       replicate 24 (HttpReq GET ''http://localhost:8081'' TransportError) @
       [Unsetenv ''DATASTORE_EMULATOR_HOST'', Unsetenv ''DATASTORE_PROJECT_ID'',
        HttpReq GET ''http://localhost:8081'' TransportError]
   \<and> filter is_POST (events closed_world) = []
   \<and> Start_fixed (dead_world 150) zero_emulator =
     Some (Some DeadlineExceeded, closed_world_fixed, owned_emulator_fixed)
   \<and> events closed_world_fixed =
       [CmdStart [''gcloud'', ''beta'', ''emulators'', ''datastore'', ''start'',
                  ''--consistency=1.0'', ''--no-store-on-disk'',
                  ''--host-port=localhost:8088'', ''--project=test''] True] @
       replicate 149 (HttpReq GET ''http://localhost:8088'' TransportError) @
       [Unsetenv ''DATASTORE_EMULATOR_HOST'', Unsetenv ''DATASTORE_PROJECT_ID'',
        HttpReq GET ''http://localhost:8088'' TransportError]
   \<and> filter is_POST (events closed_world_fixed) = []"
  by (simp add: dead_run dead_run_fixed closed_world_def polled_world_def inited_world_def
        spawned_world_def closed_world_fixed_def polled_world_fixed_def spawned_world_fixed_def
        is_POST_def)

end
